theory Spec2Isabelle
  imports Main "HOL-Library.Sublist"
begin

section \<open>Session HTTP client (zlibrary/client.go)\<close>

text \<open>
  Go strings are byte sequences; they are modelled as \<open>string\<close> (a list of 8-bit
  characters). The two package-level variables of the client are the cookie jar, which no
  property below reads, and \<open>lastReferrer\<close>. The session record holds \<open>lastReferrer\<close>
  together with a log of the requests handed to \<open>httpClient.Do\<close>, in order, so that
  "how many requests were issued, and with which headers" is a statement about a value.
\<close>

definition BaseURL :: string where
  "BaseURL = ''https://z-library.sk''"

definition SearchPath :: string where
  "SearchPath = ''/s/''"

record request =
  Method :: string
  ReqURL :: string
  Referer :: "string option"

record session =
  lastReferrer :: string
  issued :: "request list"

text \<open>
  What the callers read of an \<open>http.Response\<close>. \<open>RequestURL\<close> is
  \<open>resp.Request.URL.String()\<close> when \<open>resp.Request\<close> and its URL are non-nil, and
  \<open>None\<close> otherwise. \<open>ContentType\<close> is
  \<open>strings.ToLower(resp.Header.Get("Content-Type"))\<close>, the form in which the downloader
  tests it. \<open>ContentLength\<close> is the value that \<open>strconv.ParseInt\<close> returns on the
  Content-Length header, its error ignored (0 when the header is missing or is not a
  number). The body is left to the caller, which reads it in its own way.
\<close>

record 'b response =
  StatusCode :: int
  Status :: string
  RequestURL :: "string option"
  ContentType :: string
  ContentLength :: int
  Body :: 'b

text \<open>
  The outcome of the two library calls of one \<open>MakeRequest\<close>: \<open>http.NewRequest\<close>
  rejects the URL, or \<open>httpClient.Do\<close> fails (transport error, timeout), or a
  response arrives.
\<close>

datatype 'b http_outcome =
    NewRequestError string
  | DoError string
  | Response "'b response"

datatype req_error =
    CreateRequestFailed string string
  | HttpRequestFailed string string

text \<open>\<open>init\<close>: \<open>url.Parse(BaseURL).String()\<close> is \<open>BaseURL\<close> itself for this constant.\<close>

definition init :: session where
  "init = \<lparr>lastReferrer = BaseURL, issued = []\<rparr>"

text \<open>The request built by \<open>MakeRequest\<close>: the Referer header is set only when
  \<open>lastReferrer\<close> is not the empty string.\<close>

definition newRequest :: "string \<Rightarrow> session \<Rightarrow> request" where
  "newRequest urlStr s =
     \<lparr>Method = ''GET'', ReqURL = urlStr,
      Referer = (if lastReferrer s \<noteq> '''' then Some (lastReferrer s) else None)\<rparr>"

definition Do :: "request \<Rightarrow> session \<Rightarrow> session" where
  "Do req s = s\<lparr>issued := issued s @ [req]\<rparr>"

text \<open>The final URL after redirects, defaulting to the URL asked for.\<close>

definition finalURLOf :: "string \<Rightarrow> 'b response \<Rightarrow> string" where
  "finalURLOf urlStr resp = (case RequestURL resp of Some u \<Rightarrow> u | None \<Rightarrow> urlStr)"

fun MakeRequest ::
  "string \<Rightarrow> 'b http_outcome \<Rightarrow> session \<Rightarrow> (req_error + 'b response) \<times> session" where
  "MakeRequest urlStr (NewRequestError e) s = (Inl (CreateRequestFailed urlStr e), s)"
| "MakeRequest urlStr (DoError e) s =
     (Inl (HttpRequestFailed urlStr e), Do (newRequest urlStr s) s)"
| "MakeRequest urlStr (Response resp) s =
     (let s1 = Do (newRequest urlStr s) s;
          finalURL = finalURLOf urlStr resp
      in if 200 \<le> StatusCode resp \<and> StatusCode resp < 400
         then (Inr resp, s1\<lparr>lastReferrer := finalURL\<rparr>)
         else (Inr resp, s1))"

text \<open>
  A sequence of \<open>MakeRequest\<close> calls, each with the URL asked for and the outcome the
  network gave it, run from a given session state.
\<close>

fun requestRun :: "(string \<times> 'b http_outcome) list \<Rightarrow> session \<Rightarrow> session" where
  "requestRun [] s = s"
| "requestRun ((u, out) # calls) s = requestRun calls (snd (MakeRequest u out s))"

text \<open>
  What \<open>net/http\<close> guarantees of a call that returned a response: the URL of the request
  that was answered is not the empty string (a request needs a scheme and a host to be
  sent at all).
\<close>

fun answeredURLNonEmpty :: "string \<times> 'b http_outcome \<Rightarrow> bool" where
  "answeredURLNonEmpty (u, Response resp) = (finalURLOf u resp \<noteq> '''')"
| "answeredURLNonEmpty (u, _) = True"

definition hasReferer :: "request \<Rightarrow> bool" where
  "hasReferer req = (case Referer req of Some r \<Rightarrow> r \<noteq> '''' | None \<Rightarrow> False)"


section \<open>Library functions taken as given\<close>

text \<open>
  The functions of Go's \<open>net/url\<close> and \<open>strings\<close> packages that the extractors call
  and whose code is not part of the repository are parameters of the model:
  \<^item> \<open>urlPath u\<close> is \<open>url.Parse(u)\<close>: \<open>None\<close> when it returns an error (and a nil
    URL), otherwise the \<open>Path\<close> field of the parsed URL;
  \<^item> \<open>urlResolve base ref\<close> is \<open>base.Parse(ref)\<close> for the parsed \<open>base\<close>: \<open>None\<close>
    when it returns an error, otherwise \<open>String()\<close> of the resolved URL;
  \<^item> \<open>EqualFold\<close> is \<open>strings.EqualFold\<close> (equality under Unicode case folding).
\<close>

record golib =
  urlPath :: "string \<Rightarrow> string option"
  urlResolve :: "string \<Rightarrow> string \<Rightarrow> string option"
  EqualFold :: "string \<Rightarrow> string \<Rightarrow> bool"

text \<open>\<open>utils.PtrStr\<close>: a pointer to the string, or nil if the string is empty.\<close>

definition PtrStr :: "string \<Rightarrow> string option" where
  "PtrStr s = (if s = '''' then None else Some s)"

text \<open>\<open>utils.MinInt\<close>.\<close>

definition MinInt :: "int \<Rightarrow> int \<Rightarrow> int" where
  "MinInt a b = (if a < b then a else b)"

text \<open>
  \<open>url.QueryEscape\<close>, byte by byte: letters, digits and \<open>- _ . ~\<close> stay, a space
  becomes \<open>+\<close>, every other byte becomes \<open>%XX\<close> in upper-case hexadecimal.
\<close>

definition upperhex :: string where
  "upperhex = ''0123456789ABCDEF''"

definition shouldEscape :: "char \<Rightarrow> bool" where
  "shouldEscape c =
     (let n = (of_char c :: nat)
      in \<not> ((97 \<le> n \<and> n \<le> 122) \<or> (65 \<le> n \<and> n \<le> 90) \<or> (48 \<le> n \<and> n \<le> 57) \<or>
             c = CHR ''-'' \<or> c = CHR ''_'' \<or> c = CHR ''.'' \<or> c = CHR ''~''))"

fun QueryEscape :: "string \<Rightarrow> string" where
  "QueryEscape [] = []"
| "QueryEscape (c # cs) =
     (if shouldEscape c
      then (if c = CHR '' '' then CHR ''+'' # QueryEscape cs
            else CHR ''%'' # upperhex ! ((of_char c :: nat) div 16)
                           # upperhex ! ((of_char c :: nat) mod 16) # QueryEscape cs)
      else c # QueryEscape cs)"

text \<open>\<open>strings.Contains\<close> and \<open>strings.TrimPrefix\<close> on bytes.\<close>

fun Contains :: "string \<Rightarrow> string \<Rightarrow> bool" where
  "Contains [] sub = (sub = [])"
| "Contains (c # s) sub = (prefix sub (c # s) \<or> Contains s sub)"

definition TrimPrefix :: "string \<Rightarrow> string \<Rightarrow> string" where
  "TrimPrefix s p = (if prefix p s then drop (length p) s else s)"

text \<open>
  \<open>filepath.Ext\<close>: the suffix of the path that starts at the last dot of its last
  element, empty if there is no dot. The scan runs from the end of the path and stops at
  a path separator (\<open>/\<close>; a Windows build also stops at a backslash).
\<close>

definition IsPathSeparator :: "char \<Rightarrow> bool" where
  "IsPathSeparator c = (c = CHR ''/'')"

fun extScan :: "string \<Rightarrow> string \<Rightarrow> string" where
  "extScan [] acc = ''''"
| "extScan (c # revPath) acc =
     (if IsPathSeparator c then ''''
      else if c = CHR ''.'' then c # acc
      else extScan revPath (c # acc))"

definition Ext :: "string \<Rightarrow> string" where
  "Ext path = extScan (rev path) []"

section \<open>Data structures (package zlibrary)\<close>

record BookSearchResult =
  ResultTitle :: string
  ResultURL :: string
  ResultBookID :: "string option"

record Category =
  Name :: string
  CategoryURL :: "string option"

record DownloadFormat =
  Format :: string
  FormatURL :: string

record BookDetails =
  URL :: string
  BookID :: "string option"
  Title :: "string option"
  Author :: "string option"
  AuthorURL :: "string option"
  Description :: "string option"
  RatingInterest :: "string option"
  RatingQuality :: "string option"
  Categories :: "Category list"
  ContentKind :: "string option"
  Volume :: "string option"
  Year :: "string option"
  Publisher :: "string option"
  Language :: "string option"
  ISBN10 :: "string option"
  ISBN13 :: "string option"
  Series :: "string option"
  FileFormat :: "string option"
  FileSize :: "string option"
  IpfsCID :: "string option"
  IpfsCIDBlake2b :: "string option"
  CoverURL :: "string option"
  DownloadURL :: "string option"
  OtherFormats :: "DownloadFormat list"

text \<open>The marker stored in place of a URL for a format that needs conversion.\<close>

definition CONVERSION_NEEDED :: string where
  "CONVERSION_NEEDED = ''CONVERSION_NEEDED''"

text \<open>
  The body of an HTML response, as the extractors read it: \<open>ReadAll\<close> is the byte
  string \<open>io.ReadAll(resp.Body)\<close> returns (also when it reports a read error), and
  \<open>Document\<close> is the result of \<open>goquery.NewDocumentFromReader(resp.Body)\<close>, an error
  or the parts of the document that the extractor selects.
\<close>

record 'd html_body =
  ReadAll :: string
  Document :: "string + 'd"

section \<open>Search extractor (SearchZLibrary)\<close>

text \<open>
  One element of \<open>div#searchResultBox div.book-item.resItemBoxBooks\<close>, as the loop body
  sees it. \<open>BookCard\<close> is \<open>s.Find("z-bookcard").First()\<close> (\<open>None\<close> when its length is
  0) with its \<open>href\<close> and \<open>id\<close> attributes and, when \<open>div[slot='title']\<close> exists under
  it, the trimmed text of the first such element. \<open>TitleLink\<close> is
  \<open>s.Find("h3[itemprop='name'] a").First()\<close> with its \<open>href\<close> attribute and trimmed
  text.
\<close>

record bookcard =
  CardHref :: "string option"
  CardId :: "string option"
  TitleSlot :: "string option"

record title_link =
  LinkHref :: "string option"
  LinkText :: string

record result_item =
  BookCard :: "bookcard option"
  TitleLink :: "title_link option"

datatype item_error =
    NoCardOrLink nat
  | DirectLinkNoHref nat
  | CardNoHref nat
  | BadBaseURL nat string
  | ResolveFailed nat string string

datatype search_error =
    EmptyQuery
  | SearchRequestFailed req_error
  | SearchStatus string string string
  | SearchHTML string string
  | ResultParsing nat "item_error list"

text \<open>
  The search URL: \<open>url.Parse(BaseURL)\<close> (which succeeds for this constant: \<open>init\<close>
  has parsed it already), \<open>JoinPath(SearchPath)\<close>, the single query parameter \<open>q\<close>
  set to the query and encoded by \<open>Values.Encode\<close>, and \<open>String()\<close>.
\<close>

definition searchURL :: "string \<Rightarrow> string" where
  "searchURL query = BaseURL @ SearchPath @ ''?'' @ QueryEscape ''q'' @ ''='' @ QueryEscape query"

text \<open>
  The tail shared by both branches of the loop body: parse the final URL as the base (on
  failure record an error and fall back to \<open>BaseURL\<close>), resolve the relative link, and
  build the result.
\<close>

definition resolveItem ::
  "golib \<Rightarrow> string \<Rightarrow> nat \<Rightarrow> string \<Rightarrow> string \<Rightarrow> string
     \<Rightarrow> item_error list \<times> BookSearchResult option" where
  "resolveItem L finalURLStr i relativeURL title bookID =
     (let (errs, base) = (case urlPath L finalURLStr of
                            None \<Rightarrow> ([BadBaseURL i finalURLStr], BaseURL)
                          | Some p \<Rightarrow> ([], finalURLStr))
      in case urlResolve L base relativeURL of
           None \<Rightarrow> (errs @ [ResolveFailed i relativeURL base], None)
         | Some resolved \<Rightarrow>
             (errs, Some \<lparr>ResultTitle = title, ResultURL = resolved,
                          ResultBookID = PtrStr bookID\<rparr>))"

definition processItem ::
  "golib \<Rightarrow> string \<Rightarrow> nat \<Rightarrow> result_item \<Rightarrow> item_error list \<times> BookSearchResult option" where
  "processItem L finalURLStr i s =
     (case BookCard s of
        None \<Rightarrow>
          (case TitleLink s of
             None \<Rightarrow> ([NoCardOrLink i], None)
           | Some directLink \<Rightarrow>
               (case LinkHref directLink of
                  None \<Rightarrow> ([DirectLinkNoHref i], None)
                | Some relativeURL \<Rightarrow>
                    if relativeURL = '''' then ([DirectLinkNoHref i], None)
                    else resolveItem L finalURLStr i relativeURL (LinkText directLink) ''''))
      | Some bookCard \<Rightarrow>
          (case CardHref bookCard of
             None \<Rightarrow> ([CardNoHref i], None)
           | Some relativeURL \<Rightarrow>
               if relativeURL = '''' then ([CardNoHref i], None)
               else
                 let bookID = (case CardId bookCard of Some v \<Rightarrow> v | None \<Rightarrow> '''');
                     title = (case TitleSlot bookCard of
                                Some t \<Rightarrow> t
                              | None \<Rightarrow> (case TitleLink s of
                                           Some titleFallback \<Rightarrow> LinkText titleFallback
                                         | None \<Rightarrow> ''Title N/A''))
                 in resolveItem L finalURLStr i relativeURL title bookID))"

text \<open>The \<open>Each\<close> loop, appending to \<open>results\<close> and \<open>parseErrors\<close> in page order.\<close>

fun eachItem ::
  "golib \<Rightarrow> string \<Rightarrow> nat \<Rightarrow> result_item list
     \<Rightarrow> BookSearchResult list \<times> item_error list
     \<Rightarrow> BookSearchResult list \<times> item_error list" where
  "eachItem L finalURLStr i [] acc = acc"
| "eachItem L finalURLStr i (s # rest) (results, parseErrors) =
     (case processItem L finalURLStr i s of
        (errs, None) \<Rightarrow> eachItem L finalURLStr (Suc i) rest (results, parseErrors @ errs)
      | (errs, Some r) \<Rightarrow>
          eachItem L finalURLStr (Suc i) rest (results @ [r], parseErrors @ errs))"

text \<open>
  \<open>SearchZLibrary\<close> returns the results, the final URL and the error; the model returns
  them with the session state after the call.
\<close>

definition SearchZLibrary ::
  "golib \<Rightarrow> string \<Rightarrow> (result_item list) html_body http_outcome \<Rightarrow> session
     \<Rightarrow> (BookSearchResult list \<times> string \<times> search_error option) \<times> session" where
  "SearchZLibrary L query out s =
     (if query = '''' then (([], '''', Some EmptyQuery), s)
      else
        let fetchURLStr = searchURL query
        in case MakeRequest fetchURLStr out s of
             (Inl err, s') \<Rightarrow> (([], fetchURLStr, Some (SearchRequestFailed err)), s')
           | (Inr resp, s') \<Rightarrow>
               let finalURLStr = finalURLOf fetchURLStr resp
               in if StatusCode resp \<noteq> 200
                  then (([], finalURLStr,
                         Some (SearchStatus (Status resp) finalURLStr (ReadAll (Body resp)))), s')
                  else
                    (case Document (Body resp) of
                       Inl err \<Rightarrow> (([], finalURLStr, Some (SearchHTML finalURLStr err)), s')
                     | Inr items \<Rightarrow>
                         (case eachItem L finalURLStr 0 items ([], []) of
                            (results, parseErrors) \<Rightarrow>
                              if length parseErrors > 0
                              then ((results, finalURLStr,
                                     Some (ResultParsing (length parseErrors) parseErrors)), s')
                              else ((results, finalURLStr, None), s'))))"

text \<open>
  A card of the results page, with its position, parses successfully when the loop body
  yields a result for it, and is malformed when it yields none.
\<close>

definition parsedCard :: "golib \<Rightarrow> string \<Rightarrow> nat \<times> result_item \<Rightarrow> BookSearchResult option" where
  "parsedCard L finalURLStr c = snd (processItem L finalURLStr (fst c) (snd c))"

definition wellFormedCards ::
  "golib \<Rightarrow> string \<Rightarrow> result_item list \<Rightarrow> (nat \<times> result_item) list" where
  "wellFormedCards L finalURLStr items =
     filter (\<lambda>c. parsedCard L finalURLStr c \<noteq> None) (enumerate 0 items)"

definition malformedCards ::
  "golib \<Rightarrow> string \<Rightarrow> result_item list \<Rightarrow> (nat \<times> result_item) list" where
  "malformedCards L finalURLStr items =
     filter (\<lambda>c. parsedCard L finalURLStr c = None) (enumerate 0 items)"

text \<open>Whether \<open>http.NewRequest\<close> accepted the URL.\<close>

fun requestBuilt :: "'b http_outcome \<Rightarrow> bool" where
  "requestBuilt (NewRequestError e) = False"
| "requestBuilt _ = True"

section \<open>Detail extractor (GetBookDetails)\<close>

text \<open>
  The parts of the detail page that the download-link section of \<open>GetBookDetails\<close>
  selects.

  \<open>primary_link\<close> is the first element matching the primary-button selector:
  its \<open>href\<close> attribute; \<open>ButtonFormat\<close>, the result of \<open>reFormat.FindString\<close> on the
  lower-cased, trimmed button text (empty when nothing matches); \<open>ButtonSpanFormat\<close>,
  the trimmed text of the first format span inside the button; \<open>ButtonSize\<close>, the first
  group of \<open>reSize.FindStringSubmatch\<close> on the button text when it matches.

  \<open>format_link\<close> is one element of the other-formats selection: its \<open>href\<close>
  attribute and the trimmed text of its first span.

  \<open>convert_item\<close> is one element of the conversion selection: its
  \<open>data-convert_to\<close> attribute and its trimmed text.
\<close>

record primary_link =
  PrimaryHref :: "string option"
  ButtonFormat :: string
  ButtonSpanFormat :: string
  ButtonSize :: "string option"

record format_link =
  FormatHref :: "string option"
  FormatText :: string

record convert_item =
  ConvertTo :: "string option"
  ConvertText :: string

text \<open>
  \<open>Extracted\<close> is the record as the first part of the function leaves it (identity,
  description, ratings, properties, cover image): that part assigns neither
  \<open>DownloadURL\<close> nor \<open>OtherFormats\<close>, which still hold their zero values when the
  download-link section starts, and \<open>URL\<close> is the URL the function was called with.
\<close>

record details_page =
  Extracted :: BookDetails
  PrimaryLink :: "primary_link option"
  OtherFormatLinks :: "format_link list"
  ConvertItems :: "convert_item list"

datatype detail_error =
    DetailRequestFailed req_error
  | DetailStatus string string string
  | DetailHTML string string

text \<open>The base for relative links: the final URL, or \<open>BaseURL\<close> when it does not parse.\<close>

definition detailBase :: "golib \<Rightarrow> string \<Rightarrow> string" where
  "detailBase L finalURLStr =
     (case urlPath L finalURLStr of None \<Rightarrow> BaseURL | Some p \<Rightarrow> finalURLStr)"

text \<open>The primary download link, with format and size mined from the button.\<close>

definition primaryDownloadLink ::
  "golib \<Rightarrow> string \<Rightarrow> primary_link option \<Rightarrow> BookDetails \<Rightarrow> BookDetails" where
  "primaryDownloadLink L base link details =
     (case link of
        None \<Rightarrow> details
      | Some primaryDLLink \<Rightarrow>
          (case PrimaryHref primaryDLLink of
             None \<Rightarrow> details
           | Some href \<Rightarrow>
               (case urlResolve L base href of
                  None \<Rightarrow> details
                | Some dlURLStr \<Rightarrow>
                    let d1 = details\<lparr>DownloadURL := PtrStr dlURLStr\<rparr>;
                        d2 = (if FileFormat d1 = None \<or> FileFormat d1 = Some ''''
                              then (if ButtonFormat primaryDLLink \<noteq> ''''
                                    then d1\<lparr>FileFormat := PtrStr (ButtonFormat primaryDLLink)\<rparr>
                                    else d1\<lparr>FileFormat :=
                                              PtrStr (ButtonSpanFormat primaryDLLink)\<rparr>)
                              else d1)
                    in if FileSize d2 = None \<or> FileSize d2 = Some ''''
                       then (case ButtonSize primaryDLLink of
                               Some m \<Rightarrow> d2\<lparr>FileSize := PtrStr m\<rparr>
                             | None \<Rightarrow> d2)
                       else d2)))"

text \<open>
  The format named by the end of a link: the group of
  \<open>\.(epub|pdf|mobi|azw3|fb2|txt|rtf|djvu|cbz|cbr)$\<close>, if the link ends that way.
\<close>

definition formatNames :: "string list" where
  "formatNames = [''epub'', ''pdf'', ''mobi'', ''azw3'', ''fb2'', ''txt'', ''rtf'',
                  ''djvu'', ''cbz'', ''cbr'']"

definition hrefFormat :: "string \<Rightarrow> string option" where
  "hrefFormat href = find (\<lambda>e. suffix (CHR ''.'' # e) href) formatNames"

text \<open>One step of the other-formats loop.\<close>

definition otherFormatStep ::
  "golib \<Rightarrow> string \<Rightarrow> DownloadFormat list \<Rightarrow> format_link \<Rightarrow> DownloadFormat list" where
  "otherFormatStep L base formats s =
     (case FormatHref s of
        None \<Rightarrow> formats
      | Some href \<Rightarrow>
          let formatStr = (if FormatText s = ''''
                           then (case hrefFormat href of Some m \<Rightarrow> m | None \<Rightarrow> '''')
                           else FormatText s)
          in if formatStr \<noteq> '''' \<and> Contains href ''/dl/''
             then (case urlResolve L base href of
                     Some resolved \<Rightarrow> formats @ [\<lparr>Format = formatStr, FormatURL = resolved\<rparr>]
                   | None \<Rightarrow> formats)
             else formats)"

text \<open>One step of the conversion-links loop.\<close>

definition conversionStep ::
  "golib \<Rightarrow> DownloadFormat list \<Rightarrow> convert_item \<Rightarrow> DownloadFormat list" where
  "conversionStep L formats s =
     (let convertTo = (case ConvertTo s of Some v \<Rightarrow> v | None \<Rightarrow> ConvertText s)
      in if convertTo \<noteq> ''''
         then (if list_ex (\<lambda>f. EqualFold L (Format f) convertTo) formats
               then formats
               else formats @ [\<lparr>Format = convertTo, FormatURL = CONVERSION_NEEDED\<rparr>])
         else formats)"

definition collectOtherFormats ::
  "golib \<Rightarrow> string \<Rightarrow> details_page \<Rightarrow> DownloadFormat list" where
  "collectOtherFormats L base page =
     foldl (conversionStep L)
           (foldl (otherFormatStep L base) [] (OtherFormatLinks page))
           (ConvertItems page)"

text \<open>
  Final checks, first half: with no primary URL, the first alternate that is not a
  conversion placeholder becomes the primary download.
\<close>

definition promoteFirstFormat :: "BookDetails \<Rightarrow> BookDetails" where
  "promoteFirstFormat details =
     (if DownloadURL details = None \<and> length (OtherFormats details) > 0
      then (case OtherFormats details of
              [] \<Rightarrow> details
            | firstFormat # others \<Rightarrow>
                if FormatURL firstFormat \<noteq> CONVERSION_NEEDED
                then
                  let d1 = details\<lparr>DownloadURL := PtrStr (FormatURL firstFormat)\<rparr>;
                      d2 = (if FileFormat d1 = None
                            then d1\<lparr>FileFormat := PtrStr (Format firstFormat)\<rparr>
                            else d1)
                  in d2\<lparr>OtherFormats := others\<rparr>
                else details)
      else details)"

text \<open>
  Final checks, second half: with a primary URL and no format, guess the format from the
  extension of the URL's path, if the extension has two to five characters.
\<close>

definition guessFileFormat :: "golib \<Rightarrow> BookDetails \<Rightarrow> BookDetails" where
  "guessFileFormat L details =
     (case DownloadURL details of
        None \<Rightarrow> details
      | Some dl \<Rightarrow>
          if dl \<noteq> '''' \<and> dl \<noteq> CONVERSION_NEEDED
          then (if FileFormat details = None \<or> FileFormat details = Some ''''
                then (case urlPath L dl of
                        None \<Rightarrow> details
                      | Some path \<Rightarrow>
                          let ext = TrimPrefix (Ext path) ''.''
                          in if length ext > 1 \<and> length ext < 6
                             then details\<lparr>FileFormat := PtrStr ext\<rparr>
                             else details)
                else details)
          else details)"

text \<open>
  The download-link section from the parsed page, up to the final checks: the record
  starts from what was extracted before, with the zero values of \<open>DownloadURL\<close> and
  \<open>OtherFormats\<close>.
\<close>

definition downloadLinks ::
  "golib \<Rightarrow> string \<Rightarrow> string \<Rightarrow> details_page \<Rightarrow> BookDetails" where
  "downloadLinks L bookURL finalURLStr page =
     (let base = detailBase L finalURLStr;
          d0 = (Extracted page)\<lparr>URL := bookURL, DownloadURL := None, OtherFormats := []\<rparr>;
          d1 = primaryDownloadLink L base (PrimaryLink page) d0
      in d1\<lparr>OtherFormats := collectOtherFormats L base page\<rparr>)"

definition finalChecks :: "golib \<Rightarrow> BookDetails \<Rightarrow> BookDetails" where
  "finalChecks L details = guessFileFormat L (promoteFirstFormat details)"

definition extractDownloads ::
  "golib \<Rightarrow> string \<Rightarrow> string \<Rightarrow> details_page \<Rightarrow> BookDetails" where
  "extractDownloads L bookURL finalURLStr page =
     finalChecks L (downloadLinks L bookURL finalURLStr page)"

text \<open>The snippet of an error page: at most 500 bytes, then an ellipsis.\<close>

definition bodySnippet :: "string \<Rightarrow> string" where
  "bodySnippet body =
     (if length body > 500
      then take (nat (MinInt 500 (int (length body)))) body @ ''...''
      else body)"

definition GetBookDetails ::
  "golib \<Rightarrow> string \<Rightarrow> details_page html_body http_outcome \<Rightarrow> session
     \<Rightarrow> (BookDetails option \<times> string \<times> detail_error option) \<times> session" where
  "GetBookDetails L bookURL out s =
     (case MakeRequest bookURL out s of
        (Inl err, s') \<Rightarrow> ((None, bookURL, Some (DetailRequestFailed err)), s')
      | (Inr resp, s') \<Rightarrow>
          let finalURLStr = finalURLOf bookURL resp
          in if StatusCode resp \<noteq> 200
             then ((None, finalURLStr,
                    Some (DetailStatus (Status resp) finalURLStr
                            (bodySnippet (ReadAll (Body resp))))), s')
             else
               (case Document (Body resp) of
                  Inl err \<Rightarrow> ((None, finalURLStr, Some (DetailHTML finalURLStr err)), s')
                | Inr page \<Rightarrow>
                    ((Some (extractDownloads L bookURL finalURLStr page), finalURLStr, None), s')))"

text \<open>A field is populated when it points to a non-empty string.\<close>

definition populated :: "string option \<Rightarrow> bool" where
  "populated v = (case v of Some x \<Rightarrow> x \<noteq> [] | None \<Rightarrow> False)"

text \<open>The zero value of the record, \<open>BookDetails{}\<close>.\<close>

definition zeroDetails :: BookDetails where
  "zeroDetails =
     \<lparr>URL = [], BookID = None, Title = None, Author = None, AuthorURL = None,
      Description = None, RatingInterest = None, RatingQuality = None, Categories = [],
      ContentKind = None, Volume = None, Year = None, Publisher = None, Language = None,
      ISBN10 = None, ISBN13 = None, Series = None, FileFormat = None, FileSize = None,
      IpfsCID = None, IpfsCIDBlake2b = None, CoverURL = None, DownloadURL = None,
      OtherFormats = []\<rparr>"

text \<open>An alternate is named when neither its format name nor its URL field is empty.\<close>

definition named :: "DownloadFormat \<Rightarrow> bool" where
  "named f = (Format f \<noteq> '''' \<and> FormatURL f \<noteq> '''')"


section \<open>Progress writer (download/progress.go)\<close>

text \<open>
  Byte counts are \<open>int64\<close> in the source; they are modelled as unbounded integers (a
  count of bytes written to a file stays far below the 63 bits of the type).
\<close>

datatype copy_error =
    WriteError string
  | InvalidWrite
  | ShortWrite
  | ReadError string

datatype download_error =
    RequestFailed string req_error
  | HTMLPage string
  | BadStatus string string string
  | CreateFailed string string
  | WriteFailed string
  | Interrupted copy_error

record DownloadProgress =
  Current :: int
  Total :: int
  Err :: "download_error option"

text \<open>
  What the download goroutine does to the progress channel, in order: a blocking send
  (\<open>progCh <- x\<close>), the non-blocking send of \<open>ProgressWriter.Write\<close> (a \<open>select\<close> with
  a \<open>default\<close> branch: the update is dropped when the buffer is full), and \<open>close\<close>.
\<close>

datatype chan_op =
    Send DownloadProgress
  | TrySend DownloadProgress
  | Close

text \<open>
  The file system calls of the download, as the operating system answers them:
  \<open>os.Create\<close> and \<open>os.Remove\<close> return an error or not, and a \<open>Write\<close> of \<open>len\<close>
  bytes to the output file at offset \<open>off\<close> returns the number of bytes written and an
  error or not.
\<close>

record fileops =
  CreateError :: "string option"
  RemoveError :: "string option"
  FileWrite :: "int \<Rightarrow> nat \<Rightarrow> nat \<times> string option"

record ProgressWriter =
  pwTotal :: int
  pwCurrent :: int

definition NewProgressWriter :: "int \<Rightarrow> ProgressWriter" where
  "NewProgressWriter totalSize = \<lparr>pwTotal = totalSize, pwCurrent = 0\<rparr>"

definition Write ::
  "fileops \<Rightarrow> ProgressWriter \<times> chan_op list \<Rightarrow> nat
     \<Rightarrow> (nat \<times> string option) \<times> (ProgressWriter \<times> chan_op list)" where
  "Write F st len =
     (case st of (pw, ch) \<Rightarrow>
        (case FileWrite F (pwCurrent pw) len of (n, err) \<Rightarrow>
           let pw' = pw\<lparr>pwCurrent := pwCurrent pw + int n\<rparr>;
               update = \<lparr>Current = pwCurrent pw', Total = pwTotal pw',
                         Err = map_option WriteFailed err\<rparr>
           in ((n, err), (pw', ch @ [TrySend update]))))"

section \<open>Streaming downloader (startActualDownload)\<close>

text \<open>
  The body of a download response: \<open>AllBytes\<close> is what \<open>io.ReadAll\<close> returns on it (the
  error paths read it that way), \<open>Reads\<close> is the sequence of results of its \<open>Read\<close>
  calls as \<open>io.Copy\<close> sees them: each returns a number of bytes, and the last one also
  returns an error, \<open>io.EOF\<close> or a failure. The sequence is finite: the client's timeout
  covers the reading of the body.
\<close>

datatype read_error = EOF | ReadFailed string

datatype reads =
    LastRead nat read_error
  | Read nat reads

record file_body =
  AllBytes :: string
  Reads :: reads

text \<open>
  One round of the loop of \<open>io.Copy\<close>: write what was read, count it, and report a write
  error, an invalid count or a short write.
\<close>

definition copyChunk ::
  "fileops \<Rightarrow> nat \<Rightarrow> int \<Rightarrow> ProgressWriter \<times> chan_op list
     \<Rightarrow> int \<times> copy_error option \<times> (ProgressWriter \<times> chan_op list)" where
  "copyChunk F nr written st =
     (if nr > 0
      then (case Write F st nr of
              ((nw, ew), st') \<Rightarrow>
                let ew1 = map_option WriteError ew;
                    nw' = (if nr < nw then 0 else nw);
                    ew' = (if nr < nw \<and> ew1 = None then Some InvalidWrite else ew1);
                    written' = written + int nw'
                in (written',
                    (if ew' \<noteq> None then ew'
                     else if nr \<noteq> nw' then Some ShortWrite else None),
                    st'))
      else (written, None, st))"

fun ioCopy ::
  "fileops \<Rightarrow> reads \<Rightarrow> int \<Rightarrow> ProgressWriter \<times> chan_op list
     \<Rightarrow> (int \<times> copy_error option) \<times> (ProgressWriter \<times> chan_op list)" where
  "ioCopy F (LastRead nr er) written st =
     (case copyChunk F nr written st of
        (written', Some e, st') \<Rightarrow> ((written', Some e), st')
      | (written', None, st') \<Rightarrow>
          ((written', (case er of EOF \<Rightarrow> None | ReadFailed m \<Rightarrow> Some (ReadError m))), st'))"
| "ioCopy F (Read nr rest) written st =
     (case copyChunk F nr written st of
        (written', Some e, st') \<Rightarrow> ((written', Some e), st')
      | (written', None, st') \<Rightarrow> ioCopy F rest written' st')"

text \<open>
  The download goroutine of \<open>startActualDownload\<close>. The state is the session and the
  set of paths that exist on disk; the result is the sequence of channel operations
  (ending with the deferred \<open>close\<close>) and the state afterwards.
\<close>

definition errorEvent :: "download_error \<Rightarrow> DownloadProgress" where
  "errorEvent e = \<lparr>Current = 0, Total = 0, Err = Some e\<rparr>"

definition startActualDownload ::
  "fileops \<Rightarrow> string \<Rightarrow> string \<Rightarrow> file_body http_outcome \<Rightarrow> session \<times> string set
     \<Rightarrow> chan_op list \<times> (session \<times> string set)" where
  "startActualDownload F downloadURL filePath out st =
     (case st of (s, files) \<Rightarrow>
       (case MakeRequest downloadURL out s of
          (Inl err, s') \<Rightarrow>
            ([Send (errorEvent (RequestFailed downloadURL err)), Close], (s', files))
        | (Inr resp, s') \<Rightarrow>
            let finalURL = finalURLOf downloadURL resp
            in if Contains (ContentType resp) ''text/html''
               then ([Send (errorEvent (HTMLPage finalURL)), Close], (s', files))
               else if StatusCode resp \<noteq> 200
               then ([Send (errorEvent
                              (BadStatus (Status resp) finalURL (AllBytes (Body resp)))),
                      Close], (s', files))
               else
                 let totalSize = (if ContentLength resp \<le> 0 then - 1 else ContentLength resp);
                     ch0 = [Send \<lparr>Current = 0, Total = totalSize, Err = None\<rparr>]
                 in (case CreateError F of
                       Some e \<Rightarrow>
                         (ch0 @ [Send (errorEvent (CreateFailed filePath e)), Close],
                          (s', files))
                     | None \<Rightarrow>
                         (case ioCopy F (Reads (Body resp)) 0
                                 (NewProgressWriter totalSize, ch0) of
                            ((writtenBytes, copyErr), (writer, ch1)) \<Rightarrow>
                              (case copyErr of
                                 Some e \<Rightarrow>
                                   (ch1 @ [Send \<lparr>Current = pwCurrent writer,
                                                  Total = pwTotal writer,
                                                  Err = Some (Interrupted e)\<rparr>, Close],
                                    (s', (case RemoveError F of
                                            None \<Rightarrow> insert filePath files - {filePath}
                                          | Some r \<Rightarrow> insert filePath files)))
                               | None \<Rightarrow>
                                   (ch1 @ [Send \<lparr>Current = pwCurrent writer,
                                                  Total = pwTotal writer, Err = None\<rparr>, Close],
                                    (s', insert filePath files)))))))"


text \<open>
  A download is rejected before any file is touched when the request failed, or the
  response is an HTML page, or its status is not 200.
\<close>

fun rejected :: "file_body http_outcome \<Rightarrow> bool" where
  "rejected (Response resp) = (Contains (ContentType resp) ''text/html'' \<or> StatusCode resp \<noteq> 200)"
| "rejected _ = True"



fun isTrySend :: "chan_op \<Rightarrow> bool" where
  "isTrySend (TrySend u) = True"
| "isTrySend _ = False"

text \<open>The total size announced to the consumer: the Content-Length, or -1 if unknown.\<close>

definition totalSizeOf :: "file_body response \<Rightarrow> int" where
  "totalSizeOf resp = (if ContentLength resp \<le> 0 then - 1 else ContentLength resp)"

text \<open>Whether a channel operation delivers an event that carries an error.\<close>

fun carriesError :: "chan_op \<Rightarrow> bool" where
  "carriesError (Send e) = (Err e \<noteq> None)"
| "carriesError (TrySend e) = (Err e \<noteq> None)"
| "carriesError Close = False"

section \<open>A library instance for the examples\<close>

text \<open>
  The examples below run the model on pages of the site itself, where the library
  functions are easy to describe: a reference that starts with a slash resolves to the
  origin followed by the reference, the path of a URL at the origin without query or
  fragment is what follows the origin, and format names are plain ASCII compared after
  lower-casing. The instance agrees with the library on the inputs of the examples; it
  is not a description of the library on other inputs.
\<close>

definition asciiLower :: "char \<Rightarrow> char" where
  "asciiLower c =
     (let n = (of_char c :: nat) in if 65 \<le> n \<and> n \<le> 90 then char_of (n + 32) else c)"

definition siteLib :: golib where
  "siteLib = \<lparr>urlPath = (\<lambda>u. if prefix BaseURL u then Some (drop (length BaseURL) u) else None),
              urlResolve = (\<lambda>base ref. if prefix ''/'' ref then Some (BaseURL @ ref) else None),
              EqualFold = (\<lambda>a b. map asciiLower a = map asciiLower b)\<rparr>"


section \<open>Properties of the session client\<close>

text \<open>
  C6. When \<open>MakeRequest\<close> obtains a response: a status in [200,400) sets
  \<open>lastReferrer\<close> to the final URL of that response (the URL of the request that was
  answered, after redirects); a status of 400 or more leaves \<open>lastReferrer\<close> exactly as it
  was before the call.
\<close>

theorem MakeRequest_lastReferrer:
  "(200 \<le> StatusCode resp \<and> StatusCode resp < 400 \<longrightarrow>
      lastReferrer (snd (MakeRequest urlStr (Response resp) s)) = finalURLOf urlStr resp) \<and>
   (400 \<le> StatusCode resp \<longrightarrow>
      lastReferrer (snd (MakeRequest urlStr (Response resp) s)) = lastReferrer s)"
  by (simp add: Let_def Do_def)

theorem MakeRequest_lastReferrer_witness:
  "lastReferrer (snd (MakeRequest ''https://z-library.sk/s/?q=go''
      (Response \<lparr>StatusCode = 302, Status = ''302 Found'',
                 RequestURL = Some ''https://z-library.sk/s/go'',
                 ContentType = ''text/html'', ContentLength = 0, Body = ()\<rparr>) init))
     = ''https://z-library.sk/s/go'' \<and>
   lastReferrer (snd (MakeRequest ''https://z-library.sk/book/1''
      (Response \<lparr>StatusCode = 404, Status = ''404 Not Found'',
                 RequestURL = Some ''https://z-library.sk/book/1'',
                 ContentType = ''text/html'', ContentLength = 0, Body = ()\<rparr>) init))
     = ''https://z-library.sk''"
  using MakeRequest_lastReferrer
          [of "\<lparr>StatusCode = 302, Status = ''302 Found'',
                RequestURL = Some ''https://z-library.sk/s/go'',
                ContentType = ''text/html'', ContentLength = 0, Body = ()\<rparr>"
              "''https://z-library.sk/s/?q=go''" init]
        MakeRequest_lastReferrer
          [of "\<lparr>StatusCode = 404, Status = ''404 Not Found'',
                RequestURL = Some ''https://z-library.sk/book/1'',
                ContentType = ''text/html'', ContentLength = 0, Body = ()\<rparr>"
              "''https://z-library.sk/book/1''" init]
  by (simp add: finalURLOf_def init_def BaseURL_def)

lemma referrer_stays_nonempty:
  assumes "lastReferrer s \<noteq> ''''" and "answeredURLNonEmpty (u, out)"
  shows "lastReferrer (snd (MakeRequest u out s)) \<noteq> ''''"
  using assms by (cases out) (simp_all add: Do_def Let_def)

lemma issued_stay_with_referer:
  assumes "lastReferrer s \<noteq> ''''" and "list_all hasReferer (issued s)"
  shows "list_all hasReferer (issued (snd (MakeRequest u out s)))"
  using assms
  by (cases out) (simp_all add: Do_def Let_def newRequest_def hasReferer_def)

lemma requestRun_invariant:
  assumes "list_all answeredURLNonEmpty calls"
    and "lastReferrer s \<noteq> ''''" and "list_all hasReferer (issued s)"
  shows "lastReferrer (requestRun calls s) \<noteq> '''' \<and>
         list_all hasReferer (issued (requestRun calls s))"
  using assms
proof (induction calls arbitrary: s)
  case Nil
  then show ?case by simp
next
  case (Cons c calls)
  obtain u out where c: "c = (u, out)" by (cases c)
  from Cons.prems c have ok: "answeredURLNonEmpty (u, out)"
    and rest: "list_all answeredURLNonEmpty calls" by simp_all
  have "lastReferrer (snd (MakeRequest u out s)) \<noteq> ''''"
    using Cons.prems(2) ok by (rule referrer_stays_nonempty)
  moreover have "list_all hasReferer (issued (snd (MakeRequest u out s)))"
    using Cons.prems(2,3) by (rule issued_stay_with_referer)
  ultimately show ?case
    using Cons.IH [OF rest] c by simp
qed

lemma requestRun_source:
  "lastReferrer (requestRun calls s) = lastReferrer s \<or>
   (\<exists>u resp. (u, Response resp) \<in> set calls \<and>
      lastReferrer (requestRun calls s) = finalURLOf u resp)"
proof (induction calls arbitrary: s)
  case Nil
  then show ?case by simp
next
  case (Cons c calls)
  obtain u out where c: "c = (u, out)" by (cases c)
  let ?s' = "snd (MakeRequest u out s)"
  have step: "lastReferrer ?s' = lastReferrer s \<or>
              (\<exists>resp. out = Response resp \<and> lastReferrer ?s' = finalURLOf u resp)"
    by (cases out) (simp_all add: Do_def Let_def)
  have run: "requestRun (c # calls) s = requestRun calls ?s'"
    using c by simp
  from Cons.IH [of ?s'] show ?case
  proof
    assume same: "lastReferrer (requestRun calls ?s') = lastReferrer ?s'"
    from step show ?thesis
    proof
      assume "lastReferrer ?s' = lastReferrer s"
      with same run show ?thesis by simp
    next
      assume "\<exists>resp. out = Response resp \<and> lastReferrer ?s' = finalURLOf u resp"
      then obtain resp where "out = Response resp" "lastReferrer ?s' = finalURLOf u resp"
        by blast
      with same run c have "(u, Response resp) \<in> set (c # calls) \<and>
          lastReferrer (requestRun (c # calls) s) = finalURLOf u resp"
        by simp
      then show ?thesis by blast
    qed
  next
    assume "\<exists>v resp. (v, Response resp) \<in> set calls \<and>
              lastReferrer (requestRun calls ?s') = finalURLOf v resp"
    then obtain v resp where "(v, Response resp) \<in> set calls"
      "lastReferrer (requestRun calls ?s') = finalURLOf v resp" by blast
    with run have "(v, Response resp) \<in> set (c # calls) \<and>
          lastReferrer (requestRun (c # calls) s) = finalURLOf v resp"
      by simp
    then show ?thesis by blast
  qed
qed

text \<open>
  C10. \<open>lastReferrer\<close> starts as the base URL and is only ever overwritten with the final
  URL of a response; as the HTTP library answers no request whose URL is the empty
  string, it is never empty, and every request that \<open>MakeRequest\<close> issues, the first
  included, carries a Referer header: the branch that omits the header is never taken.
\<close>

theorem referer_always_sent:
  assumes "list_all answeredURLNonEmpty calls"
  shows "lastReferrer (init :: session) = BaseURL \<and>
         lastReferrer (requestRun calls init) \<noteq> '''' \<and>
         (lastReferrer (requestRun calls init) = BaseURL \<or>
          (\<exists>u resp. (u, Response resp) \<in> set calls \<and>
             lastReferrer (requestRun calls init) = finalURLOf u resp)) \<and>
         list_all hasReferer (issued (requestRun calls init))"
proof -
  have start: "lastReferrer init \<noteq> ''''" "list_all hasReferer (issued init)"
    by (simp_all add: init_def BaseURL_def)
  have src: "lastReferrer (requestRun calls init) = BaseURL \<or>
          (\<exists>u resp. (u, Response resp) \<in> set calls \<and>
             lastReferrer (requestRun calls init) = finalURLOf u resp)"
    using requestRun_source [of calls init] by (simp add: init_def)
  from requestRun_invariant [OF assms start] src show ?thesis
    by (simp add: init_def)
qed

theorem referer_always_sent_witness:
  "list_all answeredURLNonEmpty
     [(''https://z-library.sk/s/?q=go'',
       Response \<lparr>StatusCode = 200, Status = ''200 OK'',
                 RequestURL = Some ''https://z-library.sk/s/go'',
                 ContentType = ''text/html'', ContentLength = 0, Body = ()\<rparr>),
      (''https://z-library.sk/book/1'', DoError ''timeout'')] \<and>
   map Referer (issued (requestRun
     [(''https://z-library.sk/s/?q=go'',
       Response \<lparr>StatusCode = 200, Status = ''200 OK'',
                 RequestURL = Some ''https://z-library.sk/s/go'',
                 ContentType = ''text/html'', ContentLength = 0, Body = ()\<rparr>),
      (''https://z-library.sk/book/1'', DoError ''timeout'')] init))
     = [Some ''https://z-library.sk'', Some ''https://z-library.sk/s/go'']"
proof -
  let ?calls = "[(''https://z-library.sk/s/?q=go'',
       Response \<lparr>StatusCode = 200, Status = ''200 OK'',
                 RequestURL = Some ''https://z-library.sk/s/go'',
                 ContentType = ''text/html'', ContentLength = 0, Body = ()\<rparr>),
      (''https://z-library.sk/book/1'', DoError ''timeout'')]"
  have h: "list_all answeredURLNonEmpty ?calls"
    by (simp add: finalURLOf_def)
  from referer_always_sent [OF h] h show ?thesis
    by (simp add: init_def BaseURL_def Do_def newRequest_def finalURLOf_def Let_def)
qed

section \<open>Properties of the search extractor\<close>

text \<open>
  C3, as the code has it. \<open>SearchZLibrary\<close> compares the query with the empty string
  and does not trim it. For the empty query string it fails with the empty-query error,
  returns no results and issues no HTTP request: the session, with its log of issued
  requests, is returned unchanged. For any other query, blank or not, it does not fail
  with the empty-query error.
\<close>

theorem SearchZLibrary_empty_query:
  "SearchZLibrary L '''' out s = (([], '''', Some EmptyQuery), s) \<and>
   (query \<noteq> '''' \<longrightarrow> snd (snd (fst (SearchZLibrary L query out s))) \<noteq> Some EmptyQuery)"
  by (cases out)
     (simp_all add: SearchZLibrary_def Let_def split: prod.splits sum.splits)

theorem SearchZLibrary_empty_query_witness:
  "SearchZLibrary siteLib '''' (DoError ''timeout'') init = (([], '''', Some EmptyQuery), init) \<and>
   '' '' \<noteq> '''' \<and>
   snd (snd (fst (SearchZLibrary siteLib '' '' (DoError ''timeout'') init))) \<noteq> Some EmptyQuery"
  using SearchZLibrary_empty_query [of siteLib "DoError ''timeout''" init "'' ''"]
  by simp

text \<open>
  A query of three spaces is blank after trimming, yet \<open>SearchZLibrary\<close> does not fail
  with the empty-query error for it: it issues a request and returns what the page holds.
\<close>

theorem SearchZLibrary_blank_query_counterexample:
  "SearchZLibrary siteLib ''   ''
     (Response \<lparr>StatusCode = 200, Status = ''200 OK'', RequestURL = None,
                ContentType = ''text/html'', ContentLength = 0,
                Body = \<lparr>ReadAll = '''', Document = Inr []\<rparr>\<rparr>) init
   = (([], ''https://z-library.sk/s/?q=+++'', None),
      \<lparr>lastReferrer = ''https://z-library.sk/s/?q=+++'',
       issued = [\<lparr>Method = ''GET'', ReqURL = ''https://z-library.sk/s/?q=+++'',
                  Referer = Some ''https://z-library.sk''\<rparr>]\<rparr>)"
  by (simp add: SearchZLibrary_def searchURL_def BaseURL_def SearchPath_def shouldEscape_def
        init_def Do_def newRequest_def finalURLOf_def Let_def)

text \<open>
  C4, as the code has it. For every non-empty query string, \<open>SearchZLibrary\<close> calls
  \<open>MakeRequest\<close> once, and unless \<open>http.NewRequest\<close> rejects the URL exactly one GET
  request is issued; its URL is the search endpoint with the single parameter \<open>q\<close>
  whose value is the URL-encoding of the query exactly as it was passed (the function
  does not trim it).
\<close>

theorem SearchZLibrary_one_request:
  assumes "query \<noteq> ''''" and "requestBuilt out"
  shows "issued (snd (SearchZLibrary L query out s)) =
           issued s @ [\<lparr>Method = ''GET'',
                        ReqURL = BaseURL @ SearchPath @ ''?q='' @ QueryEscape query,
                        Referer = (if lastReferrer s \<noteq> '''' then Some (lastReferrer s)
                                   else None)\<rparr>]"
proof -
  have q: "QueryEscape ''q'' = ''q''"
    by (simp add: shouldEscape_def Let_def)
  have url: "searchURL query = BaseURL @ SearchPath @ ''?q='' @ QueryEscape query"
    unfolding searchURL_def q by simp
  have log: "issued (snd (MakeRequest (searchURL query) out s)) =
               issued s @ [newRequest (searchURL query) s]"
    using assms(2) by (cases out) (simp_all add: Do_def Let_def)
  have same: "snd (SearchZLibrary L query out s) = snd (MakeRequest (searchURL query) out s)"
    using assms(1)
    by (simp add: SearchZLibrary_def Let_def split: prod.splits sum.splits)
  show ?thesis
    by (simp only: same log) (simp add: newRequest_def url)
qed

theorem SearchZLibrary_one_request_witness:
  "map ReqURL (issued (snd (SearchZLibrary siteLib ''go lang'' (DoError ''timeout'') init)))
     = [''https://z-library.sk/s/?q=go+lang'']"
proof -
  have h1: "''go lang'' \<noteq> ''''" by simp
  have h2: "requestBuilt (DoError ''timeout'' :: (result_item list) html_body http_outcome)"
    by simp
  from SearchZLibrary_one_request [OF h1 h2, of siteLib init] show ?thesis
    by (simp add: init_def BaseURL_def SearchPath_def shouldEscape_def Let_def)
qed

text \<open>
  The query \<open>'' go ''\<close> is \<open>''go''\<close> after trimming, whose URL-encoding is \<open>go\<close>; the
  request that \<open>SearchZLibrary\<close> issues carries \<open>q=+go+\<close>, the encoding of the input
  with its spaces.
\<close>

theorem SearchZLibrary_untrimmed_counterexample:
  "map ReqURL (issued (snd (SearchZLibrary siteLib '' go '' (DoError ''timeout'') init)))
     = [''https://z-library.sk/s/?q=+go+''] \<and>
   ''https://z-library.sk/s/?q=+go+'' \<noteq> BaseURL @ SearchPath @ ''?q='' @ QueryEscape ''go''"
  by (simp add: SearchZLibrary_def searchURL_def BaseURL_def SearchPath_def shouldEscape_def
        init_def Do_def newRequest_def Let_def)

lemma resolveItem_cases:
  assumes "urlPath L fin \<noteq> None"
  shows "(\<exists>e. resolveItem L fin i rel title bid = ([e], None)) \<or>
         (\<exists>r. resolveItem L fin i rel title bid = ([], Some r))"
  using assms by (auto simp: resolveItem_def split: option.splits)

lemma processItem_cases:
  assumes "urlPath L fin \<noteq> None"
  shows "(\<exists>e. processItem L fin i x = ([e], None)) \<or>
         (\<exists>r. processItem L fin i x = ([], Some r))"
  using resolveItem_cases [OF assms]
  by (simp add: processItem_def Let_def split: option.splits)

lemma eachItem_results:
  "fst (eachItem L fin i items (rs, es)) =
     rs @ List.map_filter (parsedCard L fin) (enumerate i items)"
proof (induction items arbitrary: i rs es)
  case Nil
  then show ?case by (simp add: List.map_filter_simps)
next
  case (Cons x items)
  obtain errs r where p: "processItem L fin i x = (errs, r)"
    by (cases "processItem L fin i x")
  show ?case
    using Cons.IH p
    by (cases r) (simp_all add: List.map_filter_simps parsedCard_def)
qed

lemma eachItem_errors:
  assumes "urlPath L fin \<noteq> None"
  shows "length (snd (eachItem L fin i items (rs, es))) =
     length es + length (filter (\<lambda>c. parsedCard L fin c = None) (enumerate i items))"
proof (induction items arbitrary: i rs es)
  case Nil
  then show ?case by simp
next
  case (Cons x items)
  from processItem_cases [OF assms, of i x] show ?case
  proof
    assume "\<exists>e. processItem L fin i x = ([e], None)"
    then obtain e where "processItem L fin i x = ([e], None)" ..
    then show ?thesis
      using Cons.IH by (simp add: parsedCard_def)
  next
    assume "\<exists>r. processItem L fin i x = ([], Some r)"
    then obtain r where "processItem L fin i x = ([], Some r)" ..
    then show ?thesis
      using Cons.IH by (simp add: parsedCard_def)
  qed
qed

lemma cards_partition:
  "length (wellFormedCards L fin items) + length (malformedCards L fin items) = length items"
proof -
  have "length (filter (\<lambda>c. parsedCard L fin c \<noteq> None) (enumerate 0 items)) +
        length (filter (\<lambda>c. \<not> parsedCard L fin c \<noteq> None) (enumerate 0 items)) =
        length (enumerate 0 items)"
    by (rule sum_length_filter_compl)
  then show ?thesis
    by (simp add: wellFormedCards_def malformedCards_def)
qed

lemma length_map_filter_cards:
  "length (List.map_filter (parsedCard L fin) (enumerate 0 items)) =
     length (wellFormedCards L fin items)"
  by (simp add: List.map_filter_def wellFormedCards_def)

text \<open>
  C5. On a 200 page whose final URL parses, with N cards that parse successfully and M
  malformed cards, \<open>SearchZLibrary\<close> returns exactly the N results of the well-formed
  cards, in page order, and an error that is absent when M = 0 and otherwise is the
  aggregate error stating the count M, with one message per malformed card.
\<close>

theorem SearchZLibrary_partial_success:
  assumes "query \<noteq> ''''" and "StatusCode resp = 200"
    and "Document (Body resp) = Inr items"
    and "urlPath L (finalURLOf (searchURL query) resp) \<noteq> None"
  shows "\<exists>msgs.
           fst (SearchZLibrary L query (Response resp) s) =
             (List.map_filter (parsedCard L (finalURLOf (searchURL query) resp))
                (enumerate 0 items),
              finalURLOf (searchURL query) resp,
              if malformedCards L (finalURLOf (searchURL query) resp) items = [] then None
              else Some (ResultParsing
                     (length (malformedCards L (finalURLOf (searchURL query) resp) items))
                     msgs)) \<and>
           length msgs = length (malformedCards L (finalURLOf (searchURL query) resp) items) \<and>
           length (List.map_filter (parsedCard L (finalURLOf (searchURL query) resp))
                     (enumerate 0 items)) =
             length (wellFormedCards L (finalURLOf (searchURL query) resp) items) \<and>
           length (wellFormedCards L (finalURLOf (searchURL query) resp) items) +
             length (malformedCards L (finalURLOf (searchURL query) resp) items) = length items"
proof -
  let ?fin = "finalURLOf (searchURL query) resp"
  obtain rs es where run: "eachItem L ?fin 0 items ([], []) = (rs, es)"
    by (cases "eachItem L ?fin 0 items ([], [])")
  have rs: "rs = List.map_filter (parsedCard L ?fin) (enumerate 0 items)"
    using eachItem_results [of L ?fin 0 items "[]" "[]"] run by simp
  have es: "length es = length (malformedCards L ?fin items)"
    using eachItem_errors [OF assms(4), of 0 items "[]" "[]"] run
    by (simp add: malformedCards_def)
  have res: "fst (SearchZLibrary L query (Response resp) s) =
          (rs, ?fin, if es = [] then None else Some (ResultParsing (length es) es))"
    using assms(1,2,3) run
    by (simp add: SearchZLibrary_def Let_def Do_def)
  have empty: "(es = []) = (malformedCards L ?fin items = [])"
    using es by (metis length_0_conv)
  show ?thesis
    by (rule exI [of _ es])
       (simp only: res rs es empty length_map_filter_cards cards_partition simp_thms)
qed

theorem SearchZLibrary_partial_success_witness:
  "fst (SearchZLibrary siteLib ''go''
     (Response \<lparr>StatusCode = 200, Status = ''200 OK'',
                RequestURL = Some ''https://z-library.sk/s/go'',
                ContentType = ''text/html'', ContentLength = 0,
                Body = \<lparr>ReadAll = '''',
                        Document = Inr
                          [\<lparr>BookCard = Some \<lparr>CardHref = Some ''/book/7/a'', CardId = Some ''7'',
                                             TitleSlot = Some ''Go in Action''\<rparr>,
                            TitleLink = None\<rparr>,
                           \<lparr>BookCard = None, TitleLink = None\<rparr>,
                           \<lparr>BookCard = None,
                            TitleLink = Some \<lparr>LinkHref = Some ''/book/9/c'',
                                              LinkText = ''Learning Go''\<rparr>\<rparr>]\<rparr>\<rparr>) init)
   = ([\<lparr>ResultTitle = ''Go in Action'', ResultURL = ''https://z-library.sk/book/7/a'',
        ResultBookID = Some ''7''\<rparr>,
       \<lparr>ResultTitle = ''Learning Go'', ResultURL = ''https://z-library.sk/book/9/c'',
        ResultBookID = None\<rparr>],
      ''https://z-library.sk/s/go'',
      Some (ResultParsing 1 [NoCardOrLink 1]))"
proof -
  let ?items = "[\<lparr>BookCard = Some \<lparr>CardHref = Some ''/book/7/a'', CardId = Some ''7'',
                                    TitleSlot = Some ''Go in Action''\<rparr>,
                   TitleLink = None\<rparr>,
                  \<lparr>BookCard = None, TitleLink = None\<rparr>,
                  \<lparr>BookCard = None,
                   TitleLink = Some \<lparr>LinkHref = Some ''/book/9/c'',
                                     LinkText = ''Learning Go''\<rparr>\<rparr>]"
  let ?resp = "\<lparr>StatusCode = 200, Status = ''200 OK'',
                RequestURL = Some ''https://z-library.sk/s/go'',
                ContentType = ''text/html'', ContentLength = 0,
                Body = \<lparr>ReadAll = '''', Document = Inr ?items\<rparr>\<rparr>"
  have h1: "''go'' \<noteq> ''''" by simp
  have h2: "StatusCode ?resp = 200" by simp
  have h3: "Document (Body ?resp) = Inr ?items" by simp
  have h4: "urlPath siteLib (finalURLOf (searchURL ''go'') ?resp) \<noteq> None"
    by (simp add: siteLib_def finalURLOf_def BaseURL_def)
  from SearchZLibrary_partial_success [OF h1 h2 h3 h4, of init] show ?thesis
    by (simp add: SearchZLibrary_def finalURLOf_def Do_def Let_def processItem_def
          resolveItem_def siteLib_def BaseURL_def PtrStr_def)
qed

lemma SearchZLibrary_status_error:
  assumes "query \<noteq> ''''" and "StatusCode resp \<noteq> 200"
  shows "fst (SearchZLibrary L query (Response resp) s) =
           ([], finalURLOf (searchURL query) resp,
            Some (SearchStatus (Status resp) (finalURLOf (searchURL query) resp)
                    (ReadAll (Body resp))))"
  using assms by (simp add: SearchZLibrary_def Let_def)

text \<open>
  C9 on the code. For a response of status 503 whose body has 600 bytes,
  \<open>SearchZLibrary\<close> returns no results and an error with the status and the final URL,
  and the error holds all 600 bytes of the body. \<open>GetBookDetails\<close>, given the same
  response, keeps the first 500 bytes followed by an ellipsis.
\<close>

theorem SearchZLibrary_error_holds_whole_body:
  "fst (SearchZLibrary siteLib ''go''
     (Response \<lparr>StatusCode = 503, Status = ''503 Service Unavailable'', RequestURL = None,
                ContentType = ''text/html'', ContentLength = 600,
                Body = \<lparr>ReadAll = replicate 600 (CHR ''x''), Document = Inr []\<rparr>\<rparr>) init)
   = ([], ''https://z-library.sk/s/?q=go'',
      Some (SearchStatus ''503 Service Unavailable'' ''https://z-library.sk/s/?q=go''
              (replicate 600 (CHR ''x'')))) \<and>
   length (replicate 600 (CHR ''x'')) = 600 \<and>
   fst (GetBookDetails siteLib ''https://z-library.sk/book/7/a''
     (Response \<lparr>StatusCode = 503, Status = ''503 Service Unavailable'', RequestURL = None,
                ContentType = ''text/html'', ContentLength = 600,
                Body = \<lparr>ReadAll = replicate 600 (CHR ''x''), Document = Inl ''''\<rparr>\<rparr>) init)
   = (None, ''https://z-library.sk/book/7/a'',
      Some (DetailStatus ''503 Service Unavailable'' ''https://z-library.sk/book/7/a''
              (replicate 500 (CHR ''x'') @ ''...'')))"
  by (simp add: SearchZLibrary_def GetBookDetails_def searchURL_def BaseURL_def SearchPath_def
        shouldEscape_def finalURLOf_def Let_def bodySnippet_def MinInt_def)

section \<open>Properties of the detail extractor\<close>

lemma PtrStr_Some: "s \<noteq> '''' \<Longrightarrow> PtrStr s = Some s"
  by (simp add: PtrStr_def)

text \<open>
  Every alternate that the two loops collect is named, when resolving a link never
  yields the empty string.
\<close>

lemma otherFormatStep_named:
  assumes "\<And>b r u. urlResolve L b r = Some u \<Longrightarrow> u \<noteq> ''''"
    and "list_all named formats"
  shows "list_all named (otherFormatStep L base formats s)"
  using assms
  by (auto simp: otherFormatStep_def named_def Let_def split: option.splits)

lemma conversionStep_named:
  assumes "list_all named formats"
  shows "list_all named (conversionStep L formats s)"
  using assms
  by (auto simp: conversionStep_def named_def Let_def CONVERSION_NEEDED_def
           split: option.splits)

lemma foldl_otherFormatStep_named:
  assumes "\<And>b r u. urlResolve L b r = Some u \<Longrightarrow> u \<noteq> ''''"
    and "list_all named formats"
  shows "list_all named (foldl (otherFormatStep L base) formats links)"
  using assms(2)
proof (induction links arbitrary: formats)
  case Nil
  then show ?case by simp
next
  case (Cons s links)
  have "list_all named (otherFormatStep L base formats s)"
    using assms(1) Cons.prems by (rule otherFormatStep_named)
  then show ?case
    using Cons.IH by simp
qed

lemma foldl_conversionStep_named:
  assumes "list_all named formats"
  shows "list_all named (foldl (conversionStep L) formats items)"
  using assms
proof (induction items arbitrary: formats)
  case Nil
  then show ?case by simp
next
  case (Cons s items)
  have "list_all named (conversionStep L formats s)"
    using Cons.prems by (rule conversionStep_named)
  then show ?case
    using Cons.IH by simp
qed

lemma collectOtherFormats_named:
  assumes "\<And>b r u. urlResolve L b r = Some u \<Longrightarrow> u \<noteq> ''''"
  shows "list_all named (collectOtherFormats L base page)"
proof -
  have start: "list_all named []" by simp
  have "list_all named (foldl (otherFormatStep L base) [] (OtherFormatLinks page))"
    using assms start by (rule foldl_otherFormatStep_named)
  then show ?thesis
    unfolding collectOtherFormats_def by (rule foldl_conversionStep_named)
qed

lemma OtherFormats_downloadLinks:
  "OtherFormats (downloadLinks L bookURL fin page) =
     collectOtherFormats L (detailBase L fin) page"
  by (simp add: downloadLinks_def Let_def)

text \<open>What a successful call returns is the extraction from the parsed page.\<close>

lemma GetBookDetails_Some:
  assumes "fst (GetBookDetails L bookURL (Response resp) s) = (Some details, fin, err)"
    and "Document (Body resp) = Inr page"
  shows "fin = finalURLOf bookURL resp \<and> err = None \<and>
         details = finalChecks L (downloadLinks L bookURL fin page)"
  using assms
  by (auto simp: GetBookDetails_def Let_def extractDownloads_def split: if_splits)

lemma promoteFirstFormat_promotes:
  assumes "DownloadURL d = None" and "OtherFormats d = f # others"
    and "FormatURL f \<noteq> CONVERSION_NEEDED"
  shows "promoteFirstFormat d =
           (if FileFormat d = None
            then d\<lparr>DownloadURL := PtrStr (FormatURL f), FileFormat := PtrStr (Format f),
                   OtherFormats := others\<rparr>
            else d\<lparr>DownloadURL := PtrStr (FormatURL f), OtherFormats := others\<rparr>)"
  using assms by (simp add: promoteFirstFormat_def Let_def)

lemma promoteFirstFormat_keeps:
  assumes "OtherFormats d = f # others" and "FormatURL f = CONVERSION_NEEDED"
  shows "promoteFirstFormat d = d"
  using assms by (simp add: promoteFirstFormat_def)

lemma populated_iff: "populated v = (v \<noteq> None \<and> v \<noteq> Some [])"
  by (cases v) (simp_all add: populated_def)

lemma guessFileFormat_frame:
  "DownloadURL (guessFileFormat L d) = DownloadURL d \<and>
   OtherFormats (guessFileFormat L d) = OtherFormats d"
  by (simp add: guessFileFormat_def Let_def split: option.splits)

lemma guessFileFormat_known:
  assumes "populated (FileFormat d)"
  shows "guessFileFormat L d = d"
proof -
  from assms have a: "FileFormat d \<noteq> None" and b: "FileFormat d \<noteq> Some ''''"
    by (simp_all add: populated_iff)
  show ?thesis
    by (simp add: guessFileFormat_def a b split: option.splits)
qed

text \<open>
  C1. For every record that \<open>GetBookDetails\<close> returns, with \<open>before\<close> the record at
  the end of the extraction (before the final checks): if \<open>before\<close> has no primary
  download URL and its first alternate is not the conversion marker, the returned record
  has that alternate's URL as \<open>DownloadURL\<close>, its format as \<open>FileFormat\<close> when
  \<open>FileFormat\<close> was absent, and the remaining alternates as \<open>OtherFormats\<close>; if the
  first alternate is the conversion marker, \<open>DownloadURL\<close> stays absent and
  \<open>OtherFormats\<close> is unchanged. The hypothesis on the library is that resolving a link
  never yields the empty string.
\<close>

theorem first_alternate_promoted:
  assumes "\<forall>b r u. urlResolve L b r = Some u \<longrightarrow> u \<noteq> ''''"
    and "fst (GetBookDetails L bookURL (Response resp) s) = (Some details, fin, err)"
    and "Document (Body resp) = Inr page"
    and "before = downloadLinks L bookURL fin page"
    and "DownloadURL before = None"
    and "OtherFormats before = f # others"
  shows "(FormatURL f \<noteq> CONVERSION_NEEDED \<longrightarrow>
            DownloadURL details = Some (FormatURL f) \<and>
            (FileFormat before = None \<longrightarrow> FileFormat details = Some (Format f)) \<and>
            OtherFormats details = others) \<and>
         (FormatURL f = CONVERSION_NEEDED \<longrightarrow>
            DownloadURL details = None \<and> OtherFormats details = OtherFormats before)"
proof -
  have details: "details = guessFileFormat L (promoteFirstFormat before)"
    using GetBookDetails_Some [OF assms(2,3)] assms(4) by (simp add: finalChecks_def)
  have "list_all named (OtherFormats before)"
    unfolding assms(4) OtherFormats_downloadLinks
    using assms(1) by (intro collectOtherFormats_named) blast
  then have f: "Format f \<noteq> ''''" "FormatURL f \<noteq> ''''"
    using assms(6) by (simp_all add: named_def)
  show ?thesis
  proof (intro conjI impI)
    assume direct: "FormatURL f \<noteq> CONVERSION_NEEDED"
    note p = promoteFirstFormat_promotes [OF assms(5,6) direct]
    show "DownloadURL details = Some (FormatURL f)"
      unfolding details using guessFileFormat_frame [of L "promoteFirstFormat before"]
      by (simp add: p PtrStr_Some f)
    show "OtherFormats details = others"
      unfolding details using guessFileFormat_frame [of L "promoteFirstFormat before"]
      by (simp add: p)
    assume absent: "FileFormat before = None"
    have "FileFormat (promoteFirstFormat before) = Some (Format f)"
      by (simp add: p absent PtrStr_Some f)
    moreover from this have "populated (FileFormat (promoteFirstFormat before))"
      by (simp add: populated_iff f)
    ultimately show "FileFormat details = Some (Format f)"
      unfolding details by (simp add: guessFileFormat_known)
  next
    assume marker: "FormatURL f = CONVERSION_NEEDED"
    note k = promoteFirstFormat_keeps [OF assms(6) marker]
    show "DownloadURL details = None"
      unfolding details using guessFileFormat_frame [of L before]
      by (simp add: k assms(5))
    show "OtherFormats details = OtherFormats before"
      unfolding details using guessFileFormat_frame [of L before]
      by (simp add: k)
  qed
qed

lemma siteLib_resolve: "\<forall>b r u. urlResolve siteLib b r = Some u \<longrightarrow> u \<noteq> ''''"
  by (auto simp: siteLib_def BaseURL_def split: if_splits)

theorem first_alternate_promoted_witness:
  "fst (GetBookDetails siteLib ''https://z-library.sk/book/7/a''
     (Response \<lparr>StatusCode = 200, Status = ''200 OK'', RequestURL = None,
                ContentType = ''text/html'', ContentLength = 0,
                Body = \<lparr>ReadAll = '''',
                        Document = Inr
                          \<lparr>Extracted = zeroDetails, PrimaryLink = None,
                           OtherFormatLinks =
                             [\<lparr>FormatHref = Some ''/dl/1'', FormatText = ''epub''\<rparr>],
                           ConvertItems = []\<rparr>\<rparr>\<rparr>) init)
   = (Some (zeroDetails\<lparr>URL := ''https://z-library.sk/book/7/a'',
                         DownloadURL := Some ''https://z-library.sk/dl/1'',
                         FileFormat := Some ''epub'', OtherFormats := []\<rparr>),
      ''https://z-library.sk/book/7/a'', None) \<and>
   fst (GetBookDetails siteLib ''https://z-library.sk/book/7/a''
     (Response \<lparr>StatusCode = 200, Status = ''200 OK'', RequestURL = None,
                ContentType = ''text/html'', ContentLength = 0,
                Body = \<lparr>ReadAll = '''',
                        Document = Inr
                          \<lparr>Extracted = zeroDetails, PrimaryLink = None,
                           OtherFormatLinks = [],
                           ConvertItems =
                             [\<lparr>ConvertTo = Some ''pdf'', ConvertText = ''pdf''\<rparr>]\<rparr>\<rparr>\<rparr>) init)
   = (Some (zeroDetails\<lparr>URL := ''https://z-library.sk/book/7/a'',
                         OtherFormats :=
                           [\<lparr>Format = ''pdf'', FormatURL = CONVERSION_NEEDED\<rparr>]\<rparr>),
      ''https://z-library.sk/book/7/a'', None)"
proof -
  let ?url = "''https://z-library.sk/book/7/a''"
  let ?pageA = "\<lparr>Extracted = zeroDetails, PrimaryLink = None,
                  OtherFormatLinks = [\<lparr>FormatHref = Some ''/dl/1'', FormatText = ''epub''\<rparr>],
                  ConvertItems = []\<rparr>"
  let ?pageB = "\<lparr>Extracted = zeroDetails, PrimaryLink = None, OtherFormatLinks = [],
                  ConvertItems = [\<lparr>ConvertTo = Some ''pdf'', ConvertText = ''pdf''\<rparr>]\<rparr>"
  let ?respA = "\<lparr>StatusCode = 200, Status = ''200 OK'', RequestURL = None,
                  ContentType = ''text/html'', ContentLength = 0,
                  Body = \<lparr>ReadAll = '''', Document = Inr ?pageA\<rparr>\<rparr>"
  let ?respB = "\<lparr>StatusCode = 200, Status = ''200 OK'', RequestURL = None,
                  ContentType = ''text/html'', ContentLength = 0,
                  Body = \<lparr>ReadAll = '''', Document = Inr ?pageB\<rparr>\<rparr>"
  let ?beforeA = "zeroDetails\<lparr>URL := ?url,
                     OtherFormats := [\<lparr>Format = ''epub'',
                                       FormatURL = ''https://z-library.sk/dl/1''\<rparr>]\<rparr>"
  let ?beforeB = "zeroDetails\<lparr>URL := ?url,
                     OtherFormats := [\<lparr>Format = ''pdf'', FormatURL = CONVERSION_NEEDED\<rparr>]\<rparr>"
  have runA: "fst (GetBookDetails siteLib ?url (Response ?respA) init) =
                (Some (extractDownloads siteLib ?url ?url ?pageA), ?url, None)"
    by (simp add: GetBookDetails_def finalURLOf_def Let_def)
  have runB: "fst (GetBookDetails siteLib ?url (Response ?respB) init) =
                (Some (extractDownloads siteLib ?url ?url ?pageB), ?url, None)"
    by (simp add: GetBookDetails_def finalURLOf_def Let_def)
  have docA: "Document (Body ?respA) = Inr ?pageA" by simp
  have docB: "Document (Body ?respB) = Inr ?pageB" by simp
  have beforeA: "?beforeA = downloadLinks siteLib ?url ?url ?pageA"
    by (simp add: downloadLinks_def Let_def detailBase_def siteLib_def BaseURL_def
          primaryDownloadLink_def collectOtherFormats_def otherFormatStep_def zeroDetails_def)
  have beforeB: "?beforeB = downloadLinks siteLib ?url ?url ?pageB"
    by (simp add: downloadLinks_def Let_def detailBase_def siteLib_def BaseURL_def
          primaryDownloadLink_def collectOtherFormats_def conversionStep_def zeroDetails_def)
  have noneA: "DownloadURL ?beforeA = None" by (simp add: zeroDetails_def)
  have noneB: "DownloadURL ?beforeB = None" by (simp add: zeroDetails_def)
  have altA: "OtherFormats ?beforeA =
                \<lparr>Format = ''epub'', FormatURL = ''https://z-library.sk/dl/1''\<rparr> # []"
    by simp
  have altB: "OtherFormats ?beforeB = \<lparr>Format = ''pdf'', FormatURL = CONVERSION_NEEDED\<rparr> # []"
    by simp
  note A = first_alternate_promoted [OF siteLib_resolve runA docA beforeA noneA altA]
  note B = first_alternate_promoted [OF siteLib_resolve runB docB beforeB noneB altB]
  have evalA: "extractDownloads siteLib ?url ?url ?pageA =
                 zeroDetails\<lparr>URL := ?url, DownloadURL := Some ''https://z-library.sk/dl/1'',
                             FileFormat := Some ''epub'', OtherFormats := []\<rparr>"
    by (simp add: extractDownloads_def finalChecks_def downloadLinks_def Let_def detailBase_def
          siteLib_def BaseURL_def primaryDownloadLink_def collectOtherFormats_def
          otherFormatStep_def promoteFirstFormat_def guessFileFormat_def PtrStr_def
          CONVERSION_NEEDED_def zeroDetails_def)
  have evalB: "extractDownloads siteLib ?url ?url ?pageB = ?beforeB"
    by (simp add: extractDownloads_def finalChecks_def downloadLinks_def Let_def detailBase_def
          siteLib_def BaseURL_def primaryDownloadLink_def collectOtherFormats_def
          conversionStep_def promoteFirstFormat_def guessFileFormat_def PtrStr_def
          CONVERSION_NEEDED_def zeroDetails_def)
  from A B show ?thesis
    by (simp only: runA runB evalA evalB simp_thms)
qed

lemma PtrStr_not_empty: "PtrStr u \<noteq> Some []"
  by (simp add: PtrStr_def)

lemma DownloadURL_primaryDownloadLink:
  "DownloadURL d \<noteq> Some [] \<Longrightarrow>
   DownloadURL (primaryDownloadLink L base link d) \<noteq> Some []"
  by (simp add: primaryDownloadLink_def Let_def PtrStr_not_empty split: option.splits)

lemma DownloadURL_downloadLinks:
  "DownloadURL (downloadLinks L bookURL fin page) \<noteq> Some []"
  by (simp add: downloadLinks_def Let_def DownloadURL_primaryDownloadLink)

lemma DownloadURL_promoteFirstFormat:
  "DownloadURL d \<noteq> Some [] \<Longrightarrow> DownloadURL (promoteFirstFormat d) \<noteq> Some []"
  by (simp add: promoteFirstFormat_def Let_def PtrStr_not_empty split: list.splits)

lemma DownloadURL_final_nonempty:
  assumes "DownloadURL (promoteFirstFormat (downloadLinks L bookURL fin page)) = Some dl"
  shows "dl \<noteq> []"
  using DownloadURL_promoteFirstFormat [OF DownloadURL_downloadLinks, of L bookURL fin page]
    assms
  by auto

lemma guessFileFormat_unknown:
  assumes "DownloadURL d = Some dl" and "dl \<noteq> ''''" and "dl \<noteq> CONVERSION_NEEDED"
    and "\<not> populated (FileFormat d)"
  shows "FileFormat (guessFileFormat L d) =
           (case urlPath L dl of
              None \<Rightarrow> FileFormat d
            | Some path \<Rightarrow>
                if 1 < length (TrimPrefix (Ext path) ''.'') \<and>
                   length (TrimPrefix (Ext path) ''.'') < 6
                then Some (TrimPrefix (Ext path) ''.'')
                else FileFormat d)"
proof -
  from assms(4) have unknown: "FileFormat d = None \<or> FileFormat d = Some ''''"
    by (auto simp: populated_iff)
  have ptr: "\<And>e. 1 < length e \<Longrightarrow> PtrStr e = Some e"
    by (auto simp: PtrStr_def)
  show ?thesis
    using unknown
    by (simp add: guessFileFormat_def assms(1,2,3) Let_def ptr split: option.splits)
qed

text \<open>
  C2, as the code has it. For every record that \<open>GetBookDetails\<close> returns with a
  \<open>DownloadURL\<close> that is not the conversion marker, with \<open>found\<close> the \<open>FileFormat\<close>
  known before the guess (from the page's properties, the download button, or the
  promoted alternate): if \<open>found\<close> is populated it is returned as it is; if not, and the
  download URL parses and the extension of its path has two to five characters, the
  extension is returned as \<open>FileFormat\<close>. \<open>FileFormat\<close> is populated in these two
  cases and in no other: with no format found and no extension of that length it stays
  unpopulated.
\<close>

theorem format_found_or_guessed:
  assumes "fst (GetBookDetails L bookURL (Response resp) s) = (Some details, fin, err)"
    and "Document (Body resp) = Inr page"
    and "found = FileFormat (promoteFirstFormat (downloadLinks L bookURL fin page))"
    and "DownloadURL details = Some dl" and "dl \<noteq> CONVERSION_NEEDED"
  shows "populated (FileFormat details) =
           (populated found \<or>
            (\<exists>path. urlPath L dl = Some path \<and> 1 < length (TrimPrefix (Ext path) ''.'') \<and>
                    length (TrimPrefix (Ext path) ''.'') < 6)) \<and>
         (populated found \<longrightarrow> FileFormat details = found) \<and>
         (\<forall>path. \<not> populated found \<and> urlPath L dl = Some path \<and>
                 1 < length (TrimPrefix (Ext path) ''.'') \<and>
                 length (TrimPrefix (Ext path) ''.'') < 6 \<longrightarrow>
                 FileFormat details = Some (TrimPrefix (Ext path) ''.''))"
proof -
  let ?d = "promoteFirstFormat (downloadLinks L bookURL fin page)"
  have details: "details = guessFileFormat L ?d"
    using GetBookDetails_Some [OF assms(1,2)] by (simp add: finalChecks_def)
  have dl: "DownloadURL ?d = Some dl"
    using assms(4) guessFileFormat_frame [of L ?d] by (simp add: details)
  have nonempty: "dl \<noteq> ''''"
    using dl by (rule DownloadURL_final_nonempty)
  show ?thesis
  proof (cases "populated found")
    case True
    then have "FileFormat details = found"
      unfolding details assms(3) by (simp add: guessFileFormat_known)
    with True show ?thesis by simp
  next
    case False
    then have unknown: "\<not> populated (FileFormat ?d)"
      by (simp add: assms(3))
    note g = guessFileFormat_unknown [OF dl nonempty assms(5) unknown, of L]
    have "FileFormat details =
            (case urlPath L dl of
               None \<Rightarrow> found
             | Some path \<Rightarrow>
                 if 1 < length (TrimPrefix (Ext path) ''.'') \<and>
                    length (TrimPrefix (Ext path) ''.'') < 6
                 then Some (TrimPrefix (Ext path) ''.'')
                 else found)"
      unfolding details assms(3) by (rule g)
    with False show ?thesis
      by (cases "urlPath L dl") (auto simp: populated_iff)
  qed
qed

theorem format_found_or_guessed_witness:
  "map_option FileFormat
     (fst (fst (GetBookDetails siteLib ''https://z-library.sk/book/7/a''
       (Response \<lparr>StatusCode = 200, Status = ''200 OK'', RequestURL = None,
                  ContentType = ''text/html'', ContentLength = 0,
                  Body = \<lparr>ReadAll = '''',
                          Document = Inr
                            \<lparr>Extracted = zeroDetails,
                             PrimaryLink = Some \<lparr>PrimaryHref = Some ''/dl/7/book.epub'',
                                                 ButtonFormat = '''', ButtonSpanFormat = '''',
                                                 ButtonSize = None\<rparr>,
                             OtherFormatLinks = [], ConvertItems = []\<rparr>\<rparr>\<rparr>) init)))
   = Some (Some ''epub'')"
proof -
  let ?url = "''https://z-library.sk/book/7/a''"
  let ?page = "\<lparr>Extracted = zeroDetails,
                 PrimaryLink = Some \<lparr>PrimaryHref = Some ''/dl/7/book.epub'',
                                     ButtonFormat = '''', ButtonSpanFormat = '''',
                                     ButtonSize = None\<rparr>,
                 OtherFormatLinks = [], ConvertItems = []\<rparr>"
  let ?resp = "\<lparr>StatusCode = 200, Status = ''200 OK'', RequestURL = None,
                 ContentType = ''text/html'', ContentLength = 0,
                 Body = \<lparr>ReadAll = '''', Document = Inr ?page\<rparr>\<rparr>"
  let ?dl = "''https://z-library.sk/dl/7/book.epub''"
  have run: "fst (GetBookDetails siteLib ?url (Response ?resp) init) =
               (Some (extractDownloads siteLib ?url ?url ?page), ?url, None)"
    by (simp add: GetBookDetails_def finalURLOf_def Let_def)
  have doc: "Document (Body ?resp) = Inr ?page" by simp
  have links: "downloadLinks siteLib ?url ?url ?page =
                 zeroDetails\<lparr>URL := ?url, DownloadURL := Some ?dl\<rparr>"
    by (simp add: downloadLinks_def Let_def detailBase_def siteLib_def BaseURL_def
          primaryDownloadLink_def collectOtherFormats_def PtrStr_def zeroDetails_def)
  have found: "None = FileFormat (promoteFirstFormat (downloadLinks siteLib ?url ?url ?page))"
    by (simp only: links) (simp add: promoteFirstFormat_def zeroDetails_def)
  have dl: "DownloadURL (extractDownloads siteLib ?url ?url ?page) = Some ?dl"
    using guessFileFormat_frame
            [of siteLib "promoteFirstFormat (downloadLinks siteLib ?url ?url ?page)"]
    by (simp only: extractDownloads_def finalChecks_def links)
       (simp add: promoteFirstFormat_def zeroDetails_def)
  have direct: "?dl \<noteq> CONVERSION_NEEDED"
    by (simp add: CONVERSION_NEEDED_def)
  have path: "urlPath siteLib ?dl = Some ''/dl/7/book.epub''"
    by (simp add: siteLib_def BaseURL_def)
  have ext: "TrimPrefix (Ext ''/dl/7/book.epub'') ''.'' = ''epub''"
    by (simp add: TrimPrefix_def Ext_def IsPathSeparator_def)
  from format_found_or_guessed [OF run doc found dl direct] show ?thesis
    by (simp add: run populated_def path ext)
qed

text \<open>
  A page whose download button links to \<open>/dl/123/abc\<close> and names no format, with no
  format among its properties: the returned record has a primary download URL that is
  not the conversion marker, and no \<open>FileFormat\<close>, as the URL has no extension to
  guess from.
\<close>

theorem format_absent_counterexample:
  "fst (GetBookDetails siteLib ''https://z-library.sk/book/123/abc''
     (Response \<lparr>StatusCode = 200, Status = ''200 OK'', RequestURL = None,
                ContentType = ''text/html'', ContentLength = 0,
                Body = \<lparr>ReadAll = '''',
                        Document = Inr
                          \<lparr>Extracted = zeroDetails,
                           PrimaryLink = Some \<lparr>PrimaryHref = Some ''/dl/123/abc'',
                                               ButtonFormat = '''', ButtonSpanFormat = '''',
                                               ButtonSize = None\<rparr>,
                           OtherFormatLinks = [], ConvertItems = []\<rparr>\<rparr>\<rparr>) init)
   = (Some (zeroDetails\<lparr>URL := ''https://z-library.sk/book/123/abc'',
                         DownloadURL := Some ''https://z-library.sk/dl/123/abc'',
                         FileFormat := None\<rparr>),
      ''https://z-library.sk/book/123/abc'', None) \<and>
   ''https://z-library.sk/dl/123/abc'' \<noteq> CONVERSION_NEEDED"
  by (simp add: GetBookDetails_def finalURLOf_def extractDownloads_def finalChecks_def
        downloadLinks_def Let_def detailBase_def siteLib_def BaseURL_def
        primaryDownloadLink_def collectOtherFormats_def promoteFirstFormat_def
        guessFileFormat_def PtrStr_def CONVERSION_NEEDED_def zeroDetails_def
        TrimPrefix_def Ext_def IsPathSeparator_def)

section \<open>Properties of the streaming downloader\<close>



lemma copyChunk_effect:
  assumes "copyChunk F nr written (pw, ch) = (written', e, (pw', ch'))"
  shows "(\<exists>ups. ch' = ch @ ups \<and> list_all isTrySend ups) \<and>
         pwTotal pw' = pwTotal pw \<and>
         ((\<forall>off len. fst (FileWrite F off len) \<le> len) \<longrightarrow>
            pwCurrent pw' - pwCurrent pw = written' - written)"
proof (cases "nr > 0")
  case False
  with assms show ?thesis by (simp add: copyChunk_def)
next
  case True
  obtain n err where w: "FileWrite F (pwCurrent pw) nr = (n, err)"
    by (cases "FileWrite F (pwCurrent pw) nr")
  have bound: "(\<forall>off len. fst (FileWrite F off len) \<le> len) \<longrightarrow> n \<le> nr"
    using w by (metis fst_conv)
  from assms True w have
    "ch' = ch @ [TrySend \<lparr>Current = pwCurrent pw + int n, Total = pwTotal pw,
                          Err = map_option WriteFailed err\<rparr>]"
    "pw' = pw\<lparr>pwCurrent := pwCurrent pw + int n\<rparr>"
    "written' = written + int (if nr < n then 0 else n)"
    by (simp_all add: copyChunk_def Write_def Let_def)
  with bound show ?thesis by auto
qed

lemma ioCopy_effect:
  assumes "ioCopy F body written (pw, ch) = ((written', e), (pw', ch'))"
  shows "(\<exists>ups. ch' = ch @ ups \<and> list_all isTrySend ups) \<and>
         pwTotal pw' = pwTotal pw \<and>
         ((\<forall>off len. fst (FileWrite F off len) \<le> len) \<longrightarrow>
            pwCurrent pw' - pwCurrent pw = written' - written)"
  using assms
proof (induction body arbitrary: written pw ch)
  case (LastRead nr er)
  obtain w1 e1 pw1 ch1 where c: "copyChunk F nr written (pw, ch) = (w1, e1, (pw1, ch1))"
    by (metis prod_cases4)
  from LastRead c have "w1 = written'" "pw1 = pw'" "ch1 = ch'"
    by (cases e1; simp)+
  with copyChunk_effect [OF c] show ?case by simp
next
  case (Read nr rest)
  obtain w1 e1 pw1 ch1 where c: "copyChunk F nr written (pw, ch) = (w1, e1, (pw1, ch1))"
    by (metis prod_cases4)
  note step = copyChunk_effect [OF c]
  show ?case
  proof (cases e1)
    case (Some err)
    with Read.prems c have "w1 = written'" "pw1 = pw'" "ch1 = ch'"
      by simp_all
    with step show ?thesis by simp
  next
    case None
    with Read.prems c have "ioCopy F rest w1 (pw1, ch1) = ((written', e), (pw', ch'))"
      by simp
    from Read.IH [OF this] step show ?thesis
      by (auto simp: list_all_append)
  qed
qed

text \<open>
  The shape of the channel trace of a download that passed the checks and created its
  file, with \<open>copyErr\<close> the result of the body copy: the initial event, then only the
  progress writer's non-blocking updates, then one final blocking event, then \<open>close\<close>.
  When the copy failed the final event carries the interruption error and the progress
  writer's byte count, and the destination file is removed unless the removal itself
  fails (which is not reported); when the copy succeeded the final event carries no error
  and the file stays. The count equals the count of bytes copied when the file never
  reports more bytes than it was given. Nothing is said here of the errors that the
  updates before the final event may carry.
\<close>

lemma copy_ends_with_one_final_event:
  assumes "\<not> rejected (Response resp)" and "CreateError F = None"
    and "ioCopy F (Reads (Body resp)) 0
           (NewProgressWriter (totalSizeOf resp),
            [Send \<lparr>Current = 0, Total = totalSizeOf resp, Err = None\<rparr>])
         = ((written, copyErr), (writer, ch))"
  shows "fst (startActualDownload F downloadURL filePath (Response resp) (s, files)) =
           ch @ [Send \<lparr>Current = pwCurrent writer, Total = totalSizeOf resp,
                        Err = map_option Interrupted copyErr\<rparr>, Close] \<and>
         (\<exists>ups. ch = Send \<lparr>Current = 0, Total = totalSizeOf resp, Err = None\<rparr> # ups \<and>
                list_all isTrySend ups) \<and>
         (copyErr \<noteq> None \<and> RemoveError F = None \<longrightarrow>
            filePath \<notin> snd (snd (startActualDownload F downloadURL filePath
                                     (Response resp) (s, files)))) \<and>
         (copyErr = None \<longrightarrow>
            filePath \<in> snd (snd (startActualDownload F downloadURL filePath
                                     (Response resp) (s, files)))) \<and>
         ((\<forall>off len. fst (FileWrite F off len) \<le> len) \<longrightarrow> pwCurrent writer = written)"
proof -
  note eff = ioCopy_effect [OF assms(3)]
  have total: "pwTotal writer = totalSizeOf resp"
    using eff by (simp add: NewProgressWriter_def)
  have current: "(\<forall>off len. fst (FileWrite F off len) \<le> len) \<longrightarrow> pwCurrent writer = written"
    using eff by (simp add: NewProgressWriter_def)
  have ups: "\<exists>ups. ch = Send \<lparr>Current = 0, Total = totalSizeOf resp, Err = None\<rparr> # ups \<and>
                   list_all isTrySend ups"
    using eff by auto
  have ok: "\<not> Contains (ContentType resp) ''text/html''" "StatusCode resp = 200"
    using assms(1) by simp_all
  have run: "startActualDownload F downloadURL filePath (Response resp) (s, files) =
          (ch @ [Send \<lparr>Current = pwCurrent writer, Total = totalSizeOf resp,
                       Err = map_option Interrupted copyErr\<rparr>, Close],
           (snd (MakeRequest downloadURL (Response resp) s),
            (case copyErr of
               None \<Rightarrow> insert filePath files
             | Some e \<Rightarrow> (case RemoveError F of
                            None \<Rightarrow> insert filePath files - {filePath}
                          | Some r \<Rightarrow> insert filePath files))))"
    using ok assms(2) assms(3) [unfolded totalSizeOf_def]
    by (cases copyErr)
       (simp_all add: startActualDownload_def Let_def total [unfolded totalSizeOf_def]
          totalSizeOf_def)
  show ?thesis
    using ups current by (auto simp: run)
qed

lemma copy_ends_with_one_final_event_example:
  "startActualDownload
     \<lparr>CreateError = None, RemoveError = None, FileWrite = (\<lambda>off len. (len, None))\<rparr>
     ''https://z-library.sk/dl/1'' ''/home/user/books/a.epub''
     (Response \<lparr>StatusCode = 200, Status = ''200 OK'', RequestURL = None,
                ContentType = ''application/epub+zip'', ContentLength = 10,
                Body = \<lparr>AllBytes = ''0123'',
                        Reads = Read 4 (LastRead 0 (ReadFailed ''unexpected EOF''))\<rparr>\<rparr>)
     (init, {})
   = ([Send \<lparr>Current = 0, Total = 10, Err = None\<rparr>,
       TrySend \<lparr>Current = 4, Total = 10, Err = None\<rparr>,
       Send \<lparr>Current = 4, Total = 10,
              Err = Some (Interrupted (ReadError ''unexpected EOF''))\<rparr>,
       Close],
      (\<lparr>lastReferrer = ''https://z-library.sk/dl/1'',
        issued = [\<lparr>Method = ''GET'', ReqURL = ''https://z-library.sk/dl/1'',
                   Referer = Some ''https://z-library.sk''\<rparr>]\<rparr>, {})) \<and>
   startActualDownload
     \<lparr>CreateError = None, RemoveError = None, FileWrite = (\<lambda>off len. (len, None))\<rparr>
     ''https://z-library.sk/dl/1'' ''/home/user/books/a.epub''
     (Response \<lparr>StatusCode = 200, Status = ''200 OK'', RequestURL = None,
                ContentType = ''application/epub+zip'', ContentLength = 10,
                Body = \<lparr>AllBytes = ''0123456789'', Reads = Read 4 (LastRead 6 EOF)\<rparr>\<rparr>)
     (init, {})
   = ([Send \<lparr>Current = 0, Total = 10, Err = None\<rparr>,
       TrySend \<lparr>Current = 4, Total = 10, Err = None\<rparr>,
       TrySend \<lparr>Current = 10, Total = 10, Err = None\<rparr>,
       Send \<lparr>Current = 10, Total = 10, Err = None\<rparr>,
       Close],
      (\<lparr>lastReferrer = ''https://z-library.sk/dl/1'',
        issued = [\<lparr>Method = ''GET'', ReqURL = ''https://z-library.sk/dl/1'',
                   Referer = Some ''https://z-library.sk''\<rparr>]\<rparr>,
       {''/home/user/books/a.epub''}))"
proof -
  let ?F = "\<lparr>CreateError = None, RemoveError = None, FileWrite = (\<lambda>off len. (len, None))\<rparr>"
  let ?cut = "\<lparr>StatusCode = 200, Status = ''200 OK'', RequestURL = None,
                ContentType = ''application/epub+zip'', ContentLength = 10,
                Body = \<lparr>AllBytes = ''0123'',
                        Reads = Read 4 (LastRead 0 (ReadFailed ''unexpected EOF''))\<rparr>\<rparr>"
  let ?whole = "\<lparr>StatusCode = 200, Status = ''200 OK'', RequestURL = None,
                  ContentType = ''application/epub+zip'', ContentLength = 10,
                  Body = \<lparr>AllBytes = ''0123456789'', Reads = Read 4 (LastRead 6 EOF)\<rparr>\<rparr>"
  have c1: "\<not> rejected (Response ?cut)" by simp
  have w1: "\<not> rejected (Response ?whole)" by simp
  have h2: "CreateError ?F = None" by simp
  have totals: "totalSizeOf ?cut = 10" "totalSizeOf ?whole = 10"
    by (simp_all add: totalSizeOf_def)
  have c3: "ioCopy ?F (Reads (Body ?cut)) 0
              (NewProgressWriter (totalSizeOf ?cut),
               [Send \<lparr>Current = 0, Total = totalSizeOf ?cut, Err = None\<rparr>])
            = ((4, Some (ReadError ''unexpected EOF'')),
               (\<lparr>pwTotal = 10, pwCurrent = 4\<rparr>,
                [Send \<lparr>Current = 0, Total = 10, Err = None\<rparr>,
                 TrySend \<lparr>Current = 4, Total = 10, Err = None\<rparr>]))"
    by (simp add: totals copyChunk_def Write_def NewProgressWriter_def Let_def)
  have w3: "ioCopy ?F (Reads (Body ?whole)) 0
              (NewProgressWriter (totalSizeOf ?whole),
               [Send \<lparr>Current = 0, Total = totalSizeOf ?whole, Err = None\<rparr>])
            = ((10, None),
               (\<lparr>pwTotal = 10, pwCurrent = 10\<rparr>,
                [Send \<lparr>Current = 0, Total = 10, Err = None\<rparr>,
                 TrySend \<lparr>Current = 4, Total = 10, Err = None\<rparr>,
                 TrySend \<lparr>Current = 10, Total = 10, Err = None\<rparr>]))"
    by (simp add: totals copyChunk_def Write_def NewProgressWriter_def Let_def)
  note cut = copy_ends_with_one_final_event [OF c1 h2 c3, of "''https://z-library.sk/dl/1''"
               "''/home/user/books/a.epub''" init "{}"]
  note whole = copy_ends_with_one_final_event [OF w1 h2 w3, of "''https://z-library.sk/dl/1''"
               "''/home/user/books/a.epub''" init "{}"]
  from cut whole show ?thesis
    by (simp add: startActualDownload_def Let_def Do_def newRequest_def finalURLOf_def
          init_def BaseURL_def copyChunk_def Write_def NewProgressWriter_def)
qed

lemma copyChunk_quiet:
  assumes "\<forall>off len. snd (FileWrite F off len) = None"
    and "copyChunk F nr written (pw, ch) = (written', e, (pw', ch'))"
  shows "\<exists>ups. ch' = ch @ ups \<and> list_all (\<lambda>op. \<not> carriesError op) ups"
proof (cases "nr > 0")
  case False
  with assms(2) show ?thesis by (simp add: copyChunk_def)
next
  case True
  obtain n err where w: "FileWrite F (pwCurrent pw) nr = (n, err)"
    by (cases "FileWrite F (pwCurrent pw) nr")
  have "err = None"
    using assms(1) w by (metis snd_conv)
  with assms(2) True w have
    "ch' = ch @ [TrySend \<lparr>Current = pwCurrent pw + int n, Total = pwTotal pw, Err = None\<rparr>]"
    by (simp add: copyChunk_def Write_def Let_def)
  then show ?thesis by simp
qed

lemma ioCopy_quiet:
  assumes "\<forall>off len. snd (FileWrite F off len) = None"
    and "ioCopy F body written (pw, ch) = ((written', e), (pw', ch'))"
  shows "\<exists>ups. ch' = ch @ ups \<and> list_all (\<lambda>op. \<not> carriesError op) ups"
  using assms(2)
proof (induction body arbitrary: written pw ch)
  case (LastRead nr er)
  obtain w1 e1 pw1 ch1 where c: "copyChunk F nr written (pw, ch) = (w1, e1, (pw1, ch1))"
    by (metis prod_cases4)
  from LastRead c have "ch1 = ch'"
    by (cases e1) simp_all
  with copyChunk_quiet [OF assms(1) c] show ?case by simp
next
  case (Read nr rest)
  obtain w1 e1 pw1 ch1 where c: "copyChunk F nr written (pw, ch) = (w1, e1, (pw1, ch1))"
    by (metis prod_cases4)
  note step = copyChunk_quiet [OF assms(1) c]
  show ?case
  proof (cases e1)
    case (Some err)
    with Read.prems c have "ch1 = ch'" by simp
    with step show ?thesis by simp
  next
    case None
    with Read.prems c have "ioCopy F rest w1 (pw1, ch1) = ((written', e), (pw', ch'))"
      by simp
    from Read.IH [OF this] step show ?thesis
      by (auto simp: list_all_append)
  qed
qed

text \<open>
  The sibling path: when every write to the file succeeds and the copy fails (so it
  failed on reading the body), the final event is the only one that carries an error.
\<close>

lemma read_failure_single_error_event:
  assumes "\<not> rejected (Response resp)" and "CreateError F = None"
    and "\<forall>off len. snd (FileWrite F off len) = None"
    and "ioCopy F (Reads (Body resp)) 0
           (NewProgressWriter (totalSizeOf resp),
            [Send \<lparr>Current = 0, Total = totalSizeOf resp, Err = None\<rparr>])
         = ((written, Some e), (writer, ch))"
  shows "filter carriesError
           (fst (startActualDownload F downloadURL filePath (Response resp) (s, files))) =
         [Send \<lparr>Current = pwCurrent writer, Total = totalSizeOf resp,
                 Err = Some (Interrupted e)\<rparr>]"
proof -
  from ioCopy_quiet [OF assms(3,4)] obtain ups where
    "ch = [Send \<lparr>Current = 0, Total = totalSizeOf resp, Err = None\<rparr>] @ ups"
    "list_all (\<lambda>op. \<not> carriesError op) ups"
    by blast
  then have quiet: "filter carriesError ch = []"
    by (simp add: list_all_iff)
  from copy_ends_with_one_final_event [OF assms(1,2,4), of downloadURL filePath s files]
  have "fst (startActualDownload F downloadURL filePath (Response resp) (s, files)) =
          ch @ [Send \<lparr>Current = pwCurrent writer, Total = totalSizeOf resp,
                       Err = Some (Interrupted e)\<rparr>, Close]"
    by simp
  then show ?thesis
    by (simp add: quiet)
qed

text \<open>
  C8 on the code. A download of a 10-byte body, read in two chunks, whose first write
  to the destination file stores 2 bytes and fails: the file is removed, and the
  channel trace ends with the final event, carrying the interruption error and the
  count 2, followed by \<open>close\<close>. But the progress writer's update for the failed
  write, offered just before, carries the raw write error already: two events carry an
  error, and an event follows the first of them.
\<close>

theorem write_failure_two_error_events:
  "startActualDownload
     \<lparr>CreateError = None, RemoveError = None,
      FileWrite = (\<lambda>off len. (2, Some ''no space left on device''))\<rparr>
     ''https://z-library.sk/dl/1'' ''/home/user/books/a.epub''
     (Response \<lparr>StatusCode = 200, Status = ''200 OK'', RequestURL = None,
                ContentType = ''application/epub+zip'', ContentLength = 10,
                Body = \<lparr>AllBytes = ''0123456789'', Reads = Read 4 (LastRead 6 EOF)\<rparr>\<rparr>)
     (init, {})
   = ([Send \<lparr>Current = 0, Total = 10, Err = None\<rparr>,
       TrySend \<lparr>Current = 2, Total = 10,
                Err = Some (WriteFailed ''no space left on device'')\<rparr>,
       Send \<lparr>Current = 2, Total = 10,
              Err = Some (Interrupted (WriteError ''no space left on device''))\<rparr>,
       Close],
      (\<lparr>lastReferrer = ''https://z-library.sk/dl/1'',
        issued = [\<lparr>Method = ''GET'', ReqURL = ''https://z-library.sk/dl/1'',
                   Referer = Some ''https://z-library.sk''\<rparr>]\<rparr>, {})) \<and>
   map carriesError
     (fst (startActualDownload
        \<lparr>CreateError = None, RemoveError = None,
         FileWrite = (\<lambda>off len. (2, Some ''no space left on device''))\<rparr>
        ''https://z-library.sk/dl/1'' ''/home/user/books/a.epub''
        (Response \<lparr>StatusCode = 200, Status = ''200 OK'', RequestURL = None,
                   ContentType = ''application/epub+zip'', ContentLength = 10,
                   Body = \<lparr>AllBytes = ''0123456789'', Reads = Read 4 (LastRead 6 EOF)\<rparr>\<rparr>)
        (init, {})))
   = [False, True, True, False]"
  by (simp add: startActualDownload_def Let_def copyChunk_def Write_def NewProgressWriter_def
        Do_def newRequest_def finalURLOf_def init_def BaseURL_def)

end
